theory Spec2Isabelle
  imports Main
begin

section \<open>Python values\<close>

text \<open>
  The handlers receive their event as decoded JSON. The parts of it whose shape the code
  does not fix (the \<open>resourcesVpcConfig\<close> of a cluster, the replies of the EKS client) are
  kept as JSON values; an object is an association list in the order of its keys.
  Floating point numbers do not occur in these handlers and are left out.
\<close>

datatype json =
    JNull
  | JBool bool
  | JInt int
  | JStr string
  | JList "json list"
  | JObj "(string \<times> json) list"

text \<open>
  Python's \<open>==\<close> on such values: \<open>None\<close> is equal to itself only, \<open>bool\<close> is a subclass of
  \<open>int\<close> (\<open>True == 1\<close>), lists are compared position by position, and two dicts are equal
  when they have the same number of keys and every key of the first is a key of the second
  with an equal value. \<open>a != b\<close> is the negation.
\<close>

fun py_eq :: "json \<Rightarrow> json \<Rightarrow> bool"
and py_eq_list :: "json list \<Rightarrow> json list \<Rightarrow> bool"
and py_eq_items :: "(string \<times> json) list \<Rightarrow> (string \<times> json) list \<Rightarrow> bool"
where
  "py_eq JNull JNull = True"
| "py_eq (JBool a) (JBool b) = (a = b)"
| "py_eq (JBool a) (JInt j) = ((if a then 1 else 0) = j)"
| "py_eq (JInt i) (JBool b) = (i = (if b then 1 else 0))"
| "py_eq (JInt i) (JInt j) = (i = j)"
| "py_eq (JStr s) (JStr t) = (s = t)"
| "py_eq (JList xs) (JList ys) = py_eq_list xs ys"
| "py_eq (JObj kvs) (JObj kws) = (length kvs = length kws \<and> py_eq_items kvs kws)"
| "py_eq _ _ = False"
| "py_eq_list [] [] = True"
| "py_eq_list (x # xs) (y # ys) = (py_eq x y \<and> py_eq_list xs ys)"
| "py_eq_list _ _ = False"
| "py_eq_items [] kws = True"
| "py_eq_items ((k, v) # kvs) kws =
     (case map_of kws k of None \<Rightarrow> False | Some w \<Rightarrow> py_eq v w \<and> py_eq_items kvs kws)"

text \<open>A Python dict has every key once; so has every object inside a decoded value.\<close>

fun wf_json :: "json \<Rightarrow> bool"
and wf_json_list :: "json list \<Rightarrow> bool"
and wf_json_items :: "(string \<times> json) list \<Rightarrow> bool"
where
  "wf_json (JList xs) = wf_json_list xs"
| "wf_json (JObj kvs) = (distinct (map fst kvs) \<and> wf_json_items kvs)"
| "wf_json _ = True"
| "wf_json_list [] = True"
| "wf_json_list (x # xs) = (wf_json x \<and> wf_json_list xs)"
| "wf_json_items [] = True"
| "wf_json_items ((k, v) # kvs) = (wf_json v \<and> wf_json_items kvs)"

text \<open>
  Exceptions are values. A \<open>KeyError\<close> carries the missing key; every other exception is
  kept as the text \<open>str(e)\<close> gives for it, except an \<open>Exception\<close> built from the bytes a
  command printed, whose text is the \<open>repr\<close> of those bytes.
\<close>

datatype exn =
    KeyError string
  | Exception string
  | Exception_bytes string

definition quote :: char where
  "quote = CHR 0x27"

definition backslash :: char where
  "backslash = CHR 0x5C"

definition hex_digit :: "nat \<Rightarrow> char" where
  "hex_digit n = ''0123456789abcdef'' ! (n mod 16)"

text \<open>\<open>repr\<close> of a bytes object, as CPython prints it.\<close>

definition escape_byte :: "char \<Rightarrow> char \<Rightarrow> string" where
  "escape_byte q c =
     (if c = q \<or> c = backslash then [backslash, c]
      else if c = CHR 0x09 then [backslash, CHR ''t'']
      else if c = CHR 0x0A then [backslash, CHR ''n'']
      else if c = CHR 0x0D then [backslash, CHR ''r'']
      else if (of_char c :: nat) < 32 \<or> 127 \<le> (of_char c :: nat)
        then [backslash, CHR ''x'', hex_digit (of_char c div 16), hex_digit (of_char c)]
      else [c])"

definition repr_bytes :: "string \<Rightarrow> string" where
  "repr_bytes b =
     (let q = (if quote \<in> set b \<and> CHR 0x22 \<notin> set b then CHR 0x22 else quote)
      in [CHR ''b'', q] @ concat (map (escape_byte q) b) @ [q])"

text \<open>
  \<open>str(e)\<close>. The keys looked up in these handlers are plain identifiers, whose \<open>repr\<close> is
  the key between single quotes.
\<close>

fun str_exn :: "exn \<Rightarrow> string" where
  "str_exn (KeyError k) = [quote] @ k @ [quote]"
| "str_exn (Exception m) = m"
| "str_exn (Exception_bytes b) = repr_bytes b"

text \<open>\<open>d[k]\<close> on a decoded value (the messages are those of Python 3.7).\<close>

fun subscript :: "json \<Rightarrow> string \<Rightarrow> exn + json" where
  "subscript (JObj kvs) k = (case map_of kvs k of Some v \<Rightarrow> Inr v | None \<Rightarrow> Inl (KeyError k))"
| "subscript (JStr s) k = Inl (Exception ''string indices must be integers'')"
| "subscript (JList xs) k = Inl (Exception ''list indices must be integers or slices, not str'')"
| "subscript JNull k = Inl (Exception '''NoneType' object is not subscriptable'')"
| "subscript (JBool b) k = Inl (Exception '''bool' object is not subscriptable'')"
| "subscript (JInt i) k = Inl (Exception '''int' object is not subscriptable'')"

text \<open>\<open>x or y\<close> where \<open>x\<close> is \<open>None\<close> or a string: the empty string is false as well.\<close>

definition truthy :: "string option \<Rightarrow> bool" where
  "truthy x = (case x of None \<Rightarrow> False | Some s \<Rightarrow> s \<noteq> [])"

definition str_or :: "string option \<Rightarrow> string \<Rightarrow> string" where
  "str_or x y = (case x of None \<Rightarrow> y | Some s \<Rightarrow> if s \<noteq> [] then s else y)"

definition opt_json :: "string option \<Rightarrow> json" where
  "opt_json x = (case x of None \<Rightarrow> JNull | Some s \<Rightarrow> JStr s)"

definition get_json :: "json option \<Rightarrow> json" where
  "get_json x = (case x of None \<Rightarrow> JNull | Some v \<Rightarrow> v)"

section \<open>The request and the response\<close>

text \<open>
  The event of a custom resource request. A field is \<open>None\<close> when the key is missing from
  the event, so that \<open>event[key]\<close> raises \<open>KeyError\<close>; the values are strings, as
  CloudFormation sends them; the resource properties are those of the handler at hand.
  The handlers log what they do; the log is not part of the model.
\<close>

record 'p event =
  StackId :: "string option"
  RequestId :: "string option"
  RequestType :: "string option"
  ResourceProperties :: "'p option"
  OldResourceProperties :: "'p option"
  PhysicalResourceId :: "string option"
  LogicalResourceId :: "string option"
  ResponseURL :: "string option"

record lambda_context =
  log_stream_name :: string

text \<open>
  What has happened so far in one invocation: the calls made to the outside, in order, and
  the responses put to the response URL, each with what \<open>requests.put\<close> did (\<open>None\<close>
  when it returned, the exception when it raised).
\<close>

datatype put = Put string json "exn option"

record 'c world =
  calls :: "'c list"
  sent :: "put list"

definition CFN_SUCCESS :: string where
  "CFN_SUCCESS = ''SUCCESS''"

definition CFN_FAILED :: string where
  "CFN_FAILED = ''FAILED''"

definition see_details :: "lambda_context \<Rightarrow> string" where
  "see_details ctx = ''See the details in CloudWatch Log Stream: '' @ log_stream_name ctx"

definition responseBody ::
  "string \<Rightarrow> string \<Rightarrow> string \<Rightarrow> string \<Rightarrow> string \<Rightarrow> string \<Rightarrow> bool \<Rightarrow> json \<Rightarrow> json"
where
  "responseBody status reason physicalResourceId stack_id request_id logical_id noEcho responseData =
     JObj [(''Status'', JStr status),
           (''Reason'', JStr reason),
           (''PhysicalResourceId'', JStr physicalResourceId),
           (''StackId'', JStr stack_id),
           (''RequestId'', JStr request_id),
           (''LogicalResourceId'', JStr logical_id),
           (''NoEcho'', JBool noEcho),
           (''Data'', responseData)]"

text \<open>\<open>event.get('PhysicalResourceId', context.log_stream_name)\<close>\<close>

definition event_physical_id :: "'p event \<Rightarrow> lambda_context \<Rightarrow> string" where
  "event_physical_id ev ctx =
     (case PhysicalResourceId ev of Some p \<Rightarrow> p | None \<Rightarrow> log_stream_name ctx)"

text \<open>
  \<open>cfn_send\<close> of the cluster handler. The physical id falls back to the one of the event,
  and to the log stream name when the event has none. The put is attempted once; an
  exception of the transport is logged and not raised again.
\<close>

definition cfn_send ::
  "(string \<Rightarrow> json \<Rightarrow> exn option) \<Rightarrow> 'p event \<Rightarrow> lambda_context \<Rightarrow> string \<Rightarrow> json \<Rightarrow>
   string option \<Rightarrow> bool \<Rightarrow> string option \<Rightarrow> 'c world \<Rightarrow> exn option \<times> 'c world"
where
  "cfn_send requests_put ev ctx responseStatus responseData physicalResourceId noEcho reason w =
     (case ResponseURL ev of
        None \<Rightarrow> (Some (KeyError ''ResponseURL''), w)
      | Some responseUrl \<Rightarrow>
          let physicalResourceId' = str_or physicalResourceId (event_physical_id ev ctx)
          in
          (case StackId ev of
             None \<Rightarrow> (Some (KeyError ''StackId''), w)
           | Some stack_id \<Rightarrow>
          (case RequestId ev of
             None \<Rightarrow> (Some (KeyError ''RequestId''), w)
           | Some request_id \<Rightarrow>
          (case LogicalResourceId ev of
             None \<Rightarrow> (Some (KeyError ''LogicalResourceId''), w)
           | Some logical_id \<Rightarrow>
               let body = responseBody responseStatus (str_or reason (see_details ctx))
                            physicalResourceId' stack_id request_id logical_id noEcho responseData
               in (None, w\<lparr>sent := sent w @ [Put responseUrl body (requests_put responseUrl body)]\<rparr>)))))"

definition cfn_error ::
  "(string \<Rightarrow> json \<Rightarrow> exn option) \<Rightarrow> 'p event \<Rightarrow> lambda_context \<Rightarrow> string option \<Rightarrow>
   'c world \<Rightarrow> exn option \<times> 'c world"
where
  "cfn_error requests_put ev ctx message w =
     cfn_send requests_put ev ctx CFN_FAILED (JObj []) None False message w"

section \<open>The cluster resource handler\<close>

text \<open>
  The \<open>Config\<close> of a cluster: the four keys the handler reads, and the remaining keys, which
  it passes to \<open>create_cluster\<close> untouched. A key that is missing and a key that is
  \<open>null\<close> are both \<open>None\<close>, as \<open>config.get(key, None)\<close> reads them.
\<close>

record config =
  name :: "string option"
  resourcesVpcConfig :: "json option"
  roleArn :: "string option"
  version :: "string option"
  other :: "(string \<times> json) list"

definition empty_config :: config where
  "empty_config = \<lparr>name = None, resourcesVpcConfig = None, roleArn = None, version = None, other = []\<rparr>"

record cluster_props =
  Config :: "config option"

text \<open>
  The calls of the handler to the EKS client: \<open>Create_client\<close> is the creation of the
  session and of the client, the two waits are the waiters \<open>cluster_deleted\<close> and
  \<open>cluster_active\<close> (the latter with its delay and its number of attempts), the others
  are the operations of the same name. The client is any function from the calls made so far
  and the call made now to what that call does: it raises, or it returns a (decoded) reply.
\<close>

datatype eks_call =
    Create_client
  | Delete_cluster string
  | Wait_cluster_deleted string
  | Create_cluster config
  | Describe_cluster "string option"
  | Update_cluster_version string string
  | Wait_cluster_active string nat nat

type_synonym eks_client = "eks_call list \<Rightarrow> eks_call \<Rightarrow> exn + json"

definition invoke :: "('c list \<Rightarrow> 'c \<Rightarrow> 'r) \<Rightarrow> 'c \<Rightarrow> 'c world \<Rightarrow> 'r \<times> 'c world" where
  "invoke client c w = (client (calls w) c, w\<lparr>calls := calls w @ [c]\<rparr>)"

definition new_cluster_name :: "string \<Rightarrow> string" where
  "new_cluster_name request_id = ''cluster-'' @ request_id"

text \<open>
  The cluster name: the one of the properties, else the physical id when it is not empty
  (\<open>str_or physical_id []\<close> is that id), else, for a create, a name allocated from the
  request id.
\<close>

definition determine_cluster_name :: "config \<Rightarrow> string option \<Rightarrow> string \<Rightarrow> string \<Rightarrow> exn + string" where
  "determine_cluster_name config physical_id request_type request_id =
     (case name config of
        Some n \<Rightarrow> Inr n
      | None \<Rightarrow>
          if truthy physical_id then Inr (str_or physical_id [])
          else if request_type = ''Create'' then Inr (new_cluster_name request_id)
          else Inl (Exception ''unexpected error. cannot determine cluster name''))"

definition should_replace_cluster ::
  "string option \<Rightarrow> string \<Rightarrow> config \<Rightarrow> json \<Rightarrow> string option \<Rightarrow> bool"
where
  "should_replace_cluster physical_id cluster_name old_config resourcesVpcConfig' roleArn' =
     (let old_name = physical_id in
      if old_name \<noteq> Some cluster_name then True
      else let old_resourcesVpcConfig = get_json (resourcesVpcConfig old_config) in
      if \<not> py_eq old_resourcesVpcConfig resourcesVpcConfig' then True
      else let old_roleArn = roleArn old_config in
      if old_roleArn \<noteq> roleArn' then True
      else False)"

text \<open>
  The update of a cluster. It returns the name of the cluster to wait for: the new name
  after a replacement, the old one otherwise.
\<close>

definition version_error :: "string option \<Rightarrow> exn" where
  "version_error old_version =
     Exception (''Version cannot be changed from a specific value (''
                @ (case old_version of None \<Rightarrow> ''None'' | Some v \<Rightarrow> v) @ '') to undefined'')"

definition update_cluster ::
  "eks_client \<Rightarrow> string \<Rightarrow> string option \<Rightarrow> config \<Rightarrow> config \<Rightarrow> string \<Rightarrow> eks_call world \<Rightarrow>
   (exn + string) \<times> eks_call world"
where
  "update_cluster eks request_id physical_id config old_config cluster_name w =
     (case invoke eks (Describe_cluster physical_id) w of
        (Inl e, w1) \<Rightarrow> (Inl e, w1)
      | (Inr resp, w1) \<Rightarrow>
     (case subscript resp ''cluster'' of
        Inl e \<Rightarrow> (Inl e, w1)
      | Inr current_state \<Rightarrow>
          if should_replace_cluster physical_id cluster_name old_config
               (get_json (resourcesVpcConfig config)) (roleArn config)
          then
            let cluster_name' =
                  (if Some cluster_name = physical_id then new_cluster_name request_id
                   else cluster_name);
                config' = config\<lparr>name := Some cluster_name'\<rparr>
            in (case invoke eks (Create_cluster config') w1 of
                  (Inl e, w2) \<Rightarrow> (Inl e, w2)
                | (Inr created, w2) \<Rightarrow> (Inr cluster_name', w2))
          else
            let old_version = version old_config in
            if old_version = None \<and> version config = None then (Inr cluster_name, w1)
            else
              (case subscript current_state ''version'' of
                 Inl e \<Rightarrow> (Inl e, w1)
               | Inr old_version_actual \<Rightarrow>
                   if \<not> py_eq (opt_json (version config)) old_version_actual then
                     (case version config of
                        None \<Rightarrow> (Inl (version_error old_version), w1)
                      | Some v \<Rightarrow>
                          (case invoke eks (Update_cluster_version cluster_name v) w1 of
                             (Inl e, w2) \<Rightarrow> (Inl e, w2)
                           | (Inr updated, w2) \<Rightarrow> (Inr cluster_name, w2)))
                   else (Inr cluster_name, w1))))"

definition and_then :: "exn + 'a \<Rightarrow> ('a \<Rightarrow> exn + 'b) \<Rightarrow> exn + 'b" where
  "and_then r f = (case r of Inl e \<Rightarrow> Inl e | Inr x \<Rightarrow> f x)"

definition attributes :: "json \<Rightarrow> exn + json" where
  "attributes resp =
     and_then (and_then (subscript resp ''cluster'') (\<lambda>c. subscript c ''name'')) (\<lambda>n.
     and_then (and_then (subscript resp ''cluster'') (\<lambda>c. subscript c ''endpoint'')) (\<lambda>ep.
     and_then (and_then (subscript resp ''cluster'') (\<lambda>c. subscript c ''arn'')) (\<lambda>arn.
     and_then (and_then (and_then (subscript resp ''cluster'')
                 (\<lambda>c. subscript c ''certificateAuthority'')) (\<lambda>ca. subscript ca ''data'')) (\<lambda>cad.
       Inr (JObj [(''Name'', n), (''Endpoint'', ep), (''Arn'', arn),
                  (''CertificateAuthorityData'', cad)])))))"

text \<open>The end of a create or an update: wait for the cluster, describe it, report success.\<close>

definition wait_and_report ::
  "eks_client \<Rightarrow> (string \<Rightarrow> json \<Rightarrow> exn option) \<Rightarrow> cluster_props event \<Rightarrow> lambda_context \<Rightarrow>
   string \<Rightarrow> eks_call world \<Rightarrow> exn option \<times> eks_call world"
where
  "wait_and_report eks requests_put ev ctx cluster_name w =
     (case invoke eks (Wait_cluster_active cluster_name 30 26) w of
        (Inl e, w1) \<Rightarrow> (Some e, w1)
      | (Inr waited, w1) \<Rightarrow>
     (case invoke eks (Describe_cluster (Some cluster_name)) w1 of
        (Inl e, w2) \<Rightarrow> (Some e, w2)
      | (Inr resp, w2) \<Rightarrow>
     (case attributes resp of
        Inl e \<Rightarrow> (Some e, w2)
      | Inr attrs \<Rightarrow>
          cfn_send requests_put ev ctx CFN_SUCCESS attrs (Some cluster_name) False None w2)))"

text \<open>The delete of a cluster: delete, wait until it is gone, report success.\<close>

definition delete_and_report ::
  "eks_client \<Rightarrow> (string \<Rightarrow> json \<Rightarrow> exn option) \<Rightarrow> cluster_props event \<Rightarrow> lambda_context \<Rightarrow>
   string \<Rightarrow> eks_call world \<Rightarrow> exn option \<times> eks_call world"
where
  "delete_and_report eks requests_put ev ctx cluster_name w =
     (case invoke eks (Delete_cluster cluster_name) w of
        (Inl e, w1) \<Rightarrow> (Some e, w1)
      | (Inr deleted, w1) \<Rightarrow>
     (case invoke eks (Wait_cluster_deleted cluster_name) w1 of
        (Inl e, w2) \<Rightarrow> (Some e, w2)
      | (Inr waited, w2) \<Rightarrow>
          cfn_send requests_put ev ctx CFN_SUCCESS (JObj []) (Some cluster_name) False None w2))"

text \<open>
  The create and the update. Both return the name of the cluster to wait for; any other
  request type is an error.
\<close>

definition create_or_update ::
  "eks_client \<Rightarrow> string \<Rightarrow> string \<Rightarrow> string option \<Rightarrow> config \<Rightarrow> config \<Rightarrow> string \<Rightarrow>
   eks_call world \<Rightarrow> (exn + string) \<times> eks_call world"
where
  "create_or_update eks request_type request_id physical_id config old_config cluster_name w =
     (if request_type = ''Create'' then
        (case invoke eks (Create_cluster config) w of
           (Inl e, w1) \<Rightarrow> (Inl e, w1)
         | (Inr created, w1) \<Rightarrow> (Inr cluster_name, w1))
      else if request_type = ''Update'' then
        update_cluster eks request_id physical_id config old_config cluster_name w
      else (Inl (Exception (''Invalid request type '' @ request_type)), w))"

text \<open>
  The handler once it has read the event: it creates the client, determines the cluster
  name, writes it into the configuration and does what the request type asks for.
\<close>

definition reconcile ::
  "eks_client \<Rightarrow> (string \<Rightarrow> json \<Rightarrow> exn option) \<Rightarrow> cluster_props event \<Rightarrow> lambda_context \<Rightarrow>
   string \<Rightarrow> string \<Rightarrow> string option \<Rightarrow> config \<Rightarrow> config \<Rightarrow> eks_call world \<Rightarrow>
   exn option \<times> eks_call world"
where
  "reconcile eks requests_put ev ctx request_id request_type physical_id config0 old_config w =
     (case invoke eks Create_client w of
        (Inl e, w0) \<Rightarrow> (Some e, w0)
      | (Inr client, w0) \<Rightarrow>
     (case determine_cluster_name config0 physical_id request_type request_id of
        Inl e \<Rightarrow> (Some e, w0)
      | Inr cluster_name \<Rightarrow>
          let config = config0\<lparr>name := Some cluster_name\<rparr> in
          if request_type = ''Delete'' then
            delete_and_report eks requests_put ev ctx cluster_name w0
          else
            (case create_or_update eks request_type request_id physical_id config old_config
                    cluster_name w0 of
               (Inl e, w1) \<Rightarrow> (Some e, w1)
             | (Inr cluster_name', w1) \<Rightarrow>
                 wait_and_report eks requests_put ev ctx cluster_name' w1)))"

text \<open>\<open>event.get('OldResourceProperties', {}).get('Config', {})\<close>\<close>

definition old_config_of :: "cluster_props event \<Rightarrow> config" where
  "old_config_of ev =
     (case OldResourceProperties ev of
        None \<Rightarrow> empty_config
      | Some old_props \<Rightarrow> (case Config old_props of None \<Rightarrow> empty_config | Some c \<Rightarrow> c))"

text \<open>
  The body of the handler's \<open>try\<close>: it reads the event, a missing key being a
  \<open>KeyError\<close>, and reconciles. It returns the exception that leaves the body, if one does.
\<close>

definition handler_body ::
  "eks_client \<Rightarrow> (string \<Rightarrow> json \<Rightarrow> exn option) \<Rightarrow> cluster_props event \<Rightarrow> lambda_context \<Rightarrow>
   eks_call world \<Rightarrow> exn option \<times> eks_call world"
where
  "handler_body eks requests_put ev ctx w =
     (case StackId ev of
        None \<Rightarrow> (Some (KeyError ''StackId''), w)
      | Some stack_id \<Rightarrow>
     (case RequestId ev of
        None \<Rightarrow> (Some (KeyError ''RequestId''), w)
      | Some request_id \<Rightarrow>
     (case RequestType ev of
        None \<Rightarrow> (Some (KeyError ''RequestType''), w)
      | Some request_type \<Rightarrow>
     (case ResourceProperties ev of
        None \<Rightarrow> (Some (KeyError ''ResourceProperties''), w)
      | Some props \<Rightarrow>
     (let physical_id = PhysicalResourceId ev in
      case Config props of
        None \<Rightarrow> (Some (KeyError ''Config''), w)
      | Some config0 \<Rightarrow>
          let old_config = old_config_of ev
          in reconcile eks requests_put ev ctx request_id request_type physical_id config0
               old_config w)))))"

definition start :: "'c world" where
  "start = \<lparr>calls = [], sent = []\<rparr>"

text \<open>
  The handler: the body, and the bare \<open>except\<close> around it, which reports every exception as
  a failure. The result is the exception that leaves the handler (\<open>None\<close> when it returns)
  and what has happened.
\<close>

definition handler ::
  "eks_client \<Rightarrow> (string \<Rightarrow> json \<Rightarrow> exn option) \<Rightarrow> cluster_props event \<Rightarrow> lambda_context \<Rightarrow>
   exn option \<times> eks_call world"
where
  "handler eks requests_put ev ctx =
     (case handler_body eks requests_put ev ctx start of
        (None, w) \<Rightarrow> (None, w)
      | (Some e, w) \<Rightarrow> cfn_error requests_put ev ctx (Some (str_exn e)) w)"

section \<open>The helm chart handler\<close>

record helm_props =
  Release :: "string option"
  Chart :: "string option"
  Version :: "string option"
  Namespace :: "string option"
  Repository :: "string option"
  Values :: "string option"

text \<open>
  What a process started by \<open>subprocess.check_output\<close> does: it exits with status 0 and
  its output is returned, it exits with another status and \<open>CalledProcessError\<close> carries
  its output, or the call raises something else (the program is missing, say).
\<close>

datatype completed = Output string | CalledProcessError string | Raised exn

text \<open>
  The operating system as the helm handlers see it: the environment variables, the
  \<open>update-kubeconfig\<close> command run by \<open>check_call\<close>, the decoding and writing of the
  values file, the commands run by \<open>check_output\<close> (which may answer differently from one
  run to the next, so they are given the commands run before), and the next \<open>uuid4\<close>.
\<close>

record os_env =
  CLUSTER_NAME :: "string option"
  outdir :: string
  check_call :: "string list \<Rightarrow> exn option"
  write_values :: "string \<Rightarrow> string \<Rightarrow> exn option"
  check_output :: "string list list \<Rightarrow> string list \<Rightarrow> completed"
  uuid4 :: string

definition path_join :: "string \<Rightarrow> string \<Rightarrow> string" where
  "path_join a b = (if a = [] \<or> last a = CHR ''/'' then a @ b else a @ ''/'' @ b)"

definition kubeconfig :: "os_env \<Rightarrow> string" where
  "kubeconfig os = path_join (outdir os) ''kubeconfig''"

definition opt_args :: "string \<Rightarrow> string option \<Rightarrow> string list" where
  "opt_args flag x = (case x of None \<Rightarrow> [] | Some v \<Rightarrow> [flag, v])"

text \<open>\<open>helm\<close> of the helm chart handler: one run of the command, no retry.\<close>

definition helm_chart_cmnd ::
  "os_env \<Rightarrow> string \<Rightarrow> string \<Rightarrow> string option \<Rightarrow> string option \<Rightarrow> string option \<Rightarrow>
   string option \<Rightarrow> string option \<Rightarrow> string list"
where
  "helm_chart_cmnd os verb release chart repo file namespace version' =
     [''helm'', verb, release]
     @ (case chart of None \<Rightarrow> [] | Some c \<Rightarrow> [c])
     @ (if verb = ''upgrade'' then [''--install''] else [])
     @ opt_args ''--repo'' repo
     @ opt_args ''--values'' file
     @ opt_args ''--version'' version'
     @ opt_args ''--namespace'' namespace
     @ [''--kubeconfig'', kubeconfig os]"

definition helm_chart_helm ::
  "os_env \<Rightarrow> string \<Rightarrow> string \<Rightarrow> string option \<Rightarrow> string option \<Rightarrow> string option \<Rightarrow>
   string option \<Rightarrow> string option \<Rightarrow> string list world \<Rightarrow> exn option \<times> string list world"
where
  "helm_chart_helm os verb release chart repo file namespace version' w =
     (case invoke (check_output os)
             (helm_chart_cmnd os verb release chart repo file namespace version') w of
        (Output out, w1) \<Rightarrow> (None, w1)
      | (CalledProcessError out, w1) \<Rightarrow> (Some (Exception_bytes out), w1)
      | (Raised e, w1) \<Rightarrow> (Some e, w1))"

text \<open>
  \<open>cfn_send\<close> of the helm chart handler. It differs from the one of the cluster handler in
  one place: the physical id falls back to the log stream name, never to the physical id of
  the event.
\<close>

definition helm_chart_cfn_send ::
  "(string \<Rightarrow> json \<Rightarrow> exn option) \<Rightarrow> 'p event \<Rightarrow> lambda_context \<Rightarrow> string \<Rightarrow> json \<Rightarrow>
   string option \<Rightarrow> bool \<Rightarrow> string option \<Rightarrow> 'c world \<Rightarrow> exn option \<times> 'c world"
where
  "helm_chart_cfn_send requests_put ev ctx responseStatus responseData physicalResourceId noEcho reason w =
     (case ResponseURL ev of
        None \<Rightarrow> (Some (KeyError ''ResponseURL''), w)
      | Some responseUrl \<Rightarrow>
          (case StackId ev of
             None \<Rightarrow> (Some (KeyError ''StackId''), w)
           | Some stack_id \<Rightarrow>
          (case RequestId ev of
             None \<Rightarrow> (Some (KeyError ''RequestId''), w)
           | Some request_id \<Rightarrow>
          (case LogicalResourceId ev of
             None \<Rightarrow> (Some (KeyError ''LogicalResourceId''), w)
           | Some logical_id \<Rightarrow>
               let body = responseBody responseStatus (str_or reason (see_details ctx))
                            (str_or physicalResourceId (log_stream_name ctx))
                            stack_id request_id logical_id noEcho responseData
               in (None, w\<lparr>sent := sent w @ [Put responseUrl body (requests_put responseUrl body)]\<rparr>)))))"

definition helm_chart_cfn_error ::
  "(string \<Rightarrow> json \<Rightarrow> exn option) \<Rightarrow> 'p event \<Rightarrow> lambda_context \<Rightarrow> string option \<Rightarrow>
   'c world \<Rightarrow> exn option \<times> 'c world"
where
  "helm_chart_cfn_error requests_put ev ctx message w =
     helm_chart_cfn_send requests_put ev ctx CFN_FAILED (JObj []) None False message w"

definition undefined_physical_id :: "string \<Rightarrow> string" where
  "undefined_physical_id request_type =
     ''invalid request: request type is '' @ [quote] @ request_type @ [quote]
     @ '' but 'PhysicalResourceId' is not defined''"

text \<open>
  The command of the request: an upgrade for a create and an update, whose exception
  leaves the handler's body; an uninstall for a delete, whose exception is logged and
  dropped; nothing for any other request type.
\<close>

definition helm_chart_run ::
  "os_env \<Rightarrow> string \<Rightarrow> string \<Rightarrow> string \<Rightarrow> string option \<Rightarrow> string option \<Rightarrow> string option \<Rightarrow>
   string option \<Rightarrow> string list world \<Rightarrow> exn option \<times> string list world"
where
  "helm_chart_run os request_type release chart repository values_file namespace version' w =
     (if request_type = ''Create'' \<or> request_type = ''Update'' then
        helm_chart_helm os ''upgrade'' release (Some chart) repository values_file
          namespace version' w
      else if request_type = ''Delete'' then
        (case helm_chart_helm os ''uninstall'' release None None None namespace None w of
           (Some e, w1) \<Rightarrow> (None, w1)
         | (None, w1) \<Rightarrow> (None, w1))
      else (None, w))"

text \<open>
  The values file: for a request other than a delete that has \<open>Values\<close>, they are decoded
  and written to \<open>values.yaml\<close>.
\<close>

definition helm_chart_values :: "os_env \<Rightarrow> string \<Rightarrow> string option \<Rightarrow> exn + string option" where
  "helm_chart_values os request_type values_text =
     (case values_text of
        None \<Rightarrow> Inr None
      | Some text \<Rightarrow>
          if request_type \<noteq> ''Delete'' then
            (let values_file = path_join (outdir os) ''values.yaml'' in
             case write_values os values_file text of
               Some e \<Rightarrow> Inl e
             | None \<Rightarrow> Inr (Some values_file))
          else Inr None)"

text \<open>The body of the \<open>try\<close> of the helm chart handler.\<close>

definition helm_chart_handler_body ::
  "os_env \<Rightarrow> (string \<Rightarrow> json \<Rightarrow> exn option) \<Rightarrow> helm_props event \<Rightarrow> lambda_context \<Rightarrow>
   string list world \<Rightarrow> exn option \<times> string list world"
where
  "helm_chart_handler_body os requests_put ev ctx w =
     (case RequestType ev of
        None \<Rightarrow> (Some (KeyError ''RequestType''), w)
      | Some request_type \<Rightarrow>
     (case ResourceProperties ev of
        None \<Rightarrow> (Some (KeyError ''ResourceProperties''), w)
      | Some props \<Rightarrow>
     (let physical_id = PhysicalResourceId ev in
      case Release props of
        None \<Rightarrow> (Some (KeyError ''Release''), w)
      | Some release \<Rightarrow>
     (case Chart props of
        None \<Rightarrow> (Some (KeyError ''Chart''), w)
      | Some chart \<Rightarrow>
     (case CLUSTER_NAME os of
        None \<Rightarrow>
          helm_chart_cfn_error requests_put ev ctx
            (Some ''CLUSTER_NAME is missing in environment'') w
      | Some cluster_name \<Rightarrow>
     (case check_call os [''aws'', ''eks'', ''update-kubeconfig'', ''--name'', cluster_name,
                          ''--kubeconfig'', kubeconfig os] of
        Some e \<Rightarrow> (Some e, w)
      | None \<Rightarrow>
     (case helm_chart_values os request_type (Values props) of
        Inl e \<Rightarrow> (Some e, w)
      | Inr values_file \<Rightarrow>
     (case helm_chart_run os request_type release chart (Repository props) values_file
             (Namespace props) (Version props) w of
        (Some e, w1) \<Rightarrow> (Some e, w1)
      | (None, w1) \<Rightarrow>
          if request_type = ''Create'' then
            helm_chart_cfn_send requests_put ev ctx CFN_SUCCESS (JObj [])
              (Some (cluster_name @ ''/'' @ uuid4 os)) False None w1
          else if \<not> truthy physical_id then
            helm_chart_cfn_error requests_put ev ctx
              (Some (undefined_physical_id request_type)) w1
          else
            helm_chart_cfn_send requests_put ev ctx CFN_SUCCESS (JObj []) physical_id False
              None w1))))))))"

text \<open>
  The helm chart handler: a \<open>KeyError\<close> that leaves the body is reported as an invalid
  request, every other exception with its text.
\<close>

definition missing_key :: "exn \<Rightarrow> string" where
  "missing_key e = ''invalid request. Missing '' @ [quote] @ str_exn e @ [quote]"

definition helm_chart_handler ::
  "os_env \<Rightarrow> (string \<Rightarrow> json \<Rightarrow> exn option) \<Rightarrow> helm_props event \<Rightarrow> lambda_context \<Rightarrow>
   exn option \<times> string list world"
where
  "helm_chart_handler os requests_put ev ctx =
     (case helm_chart_handler_body os requests_put ev ctx start of
        (None, w) \<Rightarrow> (None, w)
      | (Some (KeyError k), w) \<Rightarrow> helm_chart_cfn_error requests_put ev ctx (Some (missing_key (KeyError k))) w
      | (Some e, w) \<Rightarrow> helm_chart_cfn_error requests_put ev ctx (Some (str_exn e)) w)"

section \<open>The command runner of the kubectl handler\<close>

text \<open>\<open>sub in s\<close> on bytes.\<close>

fun contains :: "string \<Rightarrow> string \<Rightarrow> bool" where
  "contains sub [] = (sub = [])"
| "contains sub (c # cs) = (take (length sub) (c # cs) = sub \<or> contains sub cs)"

definition helm_cmnd ::
  "os_env \<Rightarrow> string \<Rightarrow> string \<Rightarrow> string option \<Rightarrow> string option \<Rightarrow> string option \<Rightarrow>
   string option \<Rightarrow> string option \<Rightarrow> bool \<Rightarrow> string option \<Rightarrow> bool \<Rightarrow> string list"
where
  "helm_cmnd os verb release chart repo file namespace version' wait timeout create_namespace =
     [''helm'', verb, release]
     @ (case chart of None \<Rightarrow> [] | Some c \<Rightarrow> [c])
     @ (if verb = ''upgrade'' then [''--install''] else [])
     @ (if create_namespace then [''--create-namespace''] else [])
     @ opt_args ''--repo'' repo
     @ opt_args ''--values'' file
     @ opt_args ''--version'' version'
     @ opt_args ''--namespace'' namespace
     @ (if wait then [''--wait''] else [])
     @ opt_args ''--timeout'' timeout
     @ [''--kubeconfig'', kubeconfig os]"

definition maxAttempts :: nat where
  "maxAttempts = 3"

text \<open>
  The loop of \<open>helm\<close>: \<open>retry\<close> runs are left, \<open>output\<close> is what the last failed run
  printed (\<open>None\<close> before the first run). The message of the last line formats
  \<open>maxAttempts\<close>, which is 3.
\<close>

fun helm_loop ::
  "os_env \<Rightarrow> string list \<Rightarrow> nat \<Rightarrow> string option \<Rightarrow> string list world \<Rightarrow>
   exn option \<times> string list world"
where
  "helm_loop os cmnd 0 output w =
     (case output of
        None \<Rightarrow> (Some (Exception ''local variable 'output' referenced before assignment''), w)
      | Some out \<Rightarrow>
          (Some (Exception (''Operation failed after 3 attempts: '' @ repr_bytes out)), w))"
| "helm_loop os cmnd (Suc retry) output w =
     (case invoke (check_output os) cmnd w of
        (Output out, w1) \<Rightarrow> (None, w1)
      | (CalledProcessError out, w1) \<Rightarrow>
          if \<not> contains ''Broken pipe'' out then (Some (Exception_bytes out), w1)
          else helm_loop os cmnd retry (Some out) w1
      | (Raised e, w1) \<Rightarrow> (Some e, w1))"

definition helm ::
  "os_env \<Rightarrow> string \<Rightarrow> string \<Rightarrow> string option \<Rightarrow> string option \<Rightarrow> string option \<Rightarrow>
   string option \<Rightarrow> string option \<Rightarrow> bool \<Rightarrow> string option \<Rightarrow> bool \<Rightarrow> string list world \<Rightarrow>
   exn option \<times> string list world"
where
  "helm os verb release chart repo file namespace version' wait timeout create_namespace w =
     helm_loop os
       (helm_cmnd os verb release chart repo file namespace version' wait timeout create_namespace)
       maxAttempts None w"

section \<open>Requests that can be answered\<close>

text \<open>
  The four keys of the event that every response needs: the URL it is put to and the three
  identifiers it repeats. CloudFormation sends them with every request.
\<close>

definition envelope :: "'p event \<Rightarrow> string \<Rightarrow> string \<Rightarrow> string \<Rightarrow> string \<Rightarrow> bool" where
  "envelope ev url stack_id request_id logical_id \<longleftrightarrow>
     ResponseURL ev = Some url \<and> StackId ev = Some stack_id \<and> RequestId ev = Some request_id
     \<and> LogicalResourceId ev = Some logical_id"

text \<open>
  \<open>answers client h cs rs\<close>: after the calls \<open>h\<close>, the client answers the calls \<open>cs\<close>, made
  in this order, with the replies \<open>rs\<close>; none of them raises.
\<close>

fun answers :: "('c list \<Rightarrow> 'c \<Rightarrow> exn + 'r) \<Rightarrow> 'c list \<Rightarrow> 'c list \<Rightarrow> 'r list \<Rightarrow> bool" where
  "answers client h [] [] = True"
| "answers client h (c # cs) (r # rs) = (client h c = Inr r \<and> answers client (h @ [c]) cs rs)"
| "answers client h _ _ = False"

text \<open>The calls that delete, that create and that update a cluster.\<close>

fun is_delete :: "eks_call \<Rightarrow> bool" where
  "is_delete (Delete_cluster n) = True"
| "is_delete (Wait_cluster_deleted n) = True"
| "is_delete _ = False"

fun is_create :: "eks_call \<Rightarrow> bool" where
  "is_create (Create_cluster c) = True"
| "is_create _ = False"

fun is_update :: "eks_call \<Rightarrow> bool" where
  "is_update (Update_cluster_version n v) = True"
| "is_update _ = False"

text \<open>
  Examples: what \<open>describe_cluster\<close> returns for an active cluster (the keys the handler
  reads), a request to the cluster handler and a request to the helm chart handler.
\<close>

definition described :: "string \<Rightarrow> string \<Rightarrow> json" where
  "described n v =
     JObj [(''cluster'',
            JObj [(''name'', JStr n), (''arn'', JStr (''arn:aws:eks:cluster/'' @ n)),
                  (''version'', JStr v), (''endpoint'', JStr ''https://eks.example''),
                  (''certificateAuthority'', JObj [(''data'', JStr ''LS0t'')])])]"

definition cluster_event ::
  "string \<Rightarrow> string \<Rightarrow> string option \<Rightarrow> config \<Rightarrow> config option \<Rightarrow> cluster_props event"
where
  "cluster_event rt rid pid cfg old =
     \<lparr>StackId = Some ''arn:aws:cloudformation:stack/s'', RequestId = Some rid,
        RequestType = Some rt, ResourceProperties = Some \<lparr>Config = Some cfg\<rparr>,
        OldResourceProperties = map_option (\<lambda>c. \<lparr>Config = Some c\<rparr>) old,
        PhysicalResourceId = pid, LogicalResourceId = Some ''Cluster'',
        ResponseURL = Some ''https://cloudformation.example/response''\<rparr>"

definition chart_event :: "string \<Rightarrow> string \<Rightarrow> string option \<Rightarrow> helm_props \<Rightarrow> helm_props event" where
  "chart_event rt rid pid props =
     \<lparr>StackId = Some ''arn:aws:cloudformation:stack/s'', RequestId = Some rid,
        RequestType = Some rt, ResourceProperties = Some props, OldResourceProperties = None,
        PhysicalResourceId = pid, LogicalResourceId = Some ''Chart'',
        ResponseURL = Some ''https://cloudformation.example/response''\<rparr>"

section \<open>Python equality\<close>

lemma wf_json_list_iff: "wf_json_list xs \<longleftrightarrow> (\<forall>x\<in>set xs. wf_json x)"
  by (induction xs) auto

lemma wf_json_items_iff: "wf_json_items kvs \<longleftrightarrow> (\<forall>kv\<in>set kvs. wf_json (snd kv))"
  by (induction kvs) auto

lemma py_eq_list_refl: "(\<And>x. x \<in> set xs \<Longrightarrow> py_eq x x) \<Longrightarrow> py_eq_list xs xs"
  by (induction xs) auto

lemma py_eq_items_intro:
  "(\<And>k v. (k, v) \<in> set kvs \<Longrightarrow> \<exists>w. map_of kws k = Some w \<and> py_eq v w) \<Longrightarrow> py_eq_items kvs kws"
proof (induction kvs)
  case Nil
  show ?case by simp
next
  case (Cons kv kvs)
  obtain k v where kv: "kv = (k, v)" by (cases kv)
  from Cons.prems[of k v] kv obtain w where w: "map_of kws k = Some w" "py_eq v w" by auto
  have "py_eq_items kvs kws" using Cons.IH Cons.prems by simp
  with w kv show ?case by simp
qed

text \<open>A value whose dicts have every key once is equal to itself.\<close>

lemma py_eq_refl: "wf_json v \<Longrightarrow> py_eq v v"
proof (induction v)
  case (JList xs)
  then show ?case by (simp add: wf_json_list_iff py_eq_list_refl)
next
  case (JObj kvs)
  have "py_eq_items kvs kvs"
  proof (rule py_eq_items_intro)
    fix k v assume kv: "(k, v) \<in> set kvs"
    from JObj.prems have d: "distinct (map fst kvs)" and w: "wf_json v"
      using kv by (auto simp: wf_json_items_iff)
    have "map_of kvs k = Some v" using d kv by simp
    moreover have "py_eq v v" using JObj.IH[OF kv _ w] by simp
    ultimately show "\<exists>w. map_of kvs k = Some w \<and> py_eq v w" by blast
  qed
  then show ?case by simp
qed simp_all

lemma py_eq_items_map_of:
  "map_of xs = map_of ys \<Longrightarrow> py_eq_items zs xs = py_eq_items zs ys"
  by (induction zs) (auto split: option.splits)

text \<open>The order in which a dict lists its keys does not matter to \<open>==\<close>.\<close>

lemma py_eq_key_order:
  assumes "distinct (map fst xs)" "distinct (map fst ys)" "set xs = set ys"
  shows "py_eq v (JObj xs) = py_eq v (JObj ys)"
proof -
  have m: "map_of xs = map_of ys" using assms by (simp add: map_of_inject_set)
  have "distinct xs" "distinct ys" using assms(1,2) by (simp_all add: distinct_map)
  then have l: "length xs = length ys" using assms(3) by (metis distinct_card)
  show ?thesis by (cases v) (simp_all add: l py_eq_items_map_of[OF m])
qed

section \<open>The replacement decision\<close>

lemma should_replace_iff:
  "should_replace_cluster pid cn old vpc role \<longleftrightarrow>
     pid \<noteq> Some cn \<or> \<not> py_eq (get_json (resourcesVpcConfig old)) vpc \<or> roleArn old \<noteq> role"
  by (simp add: should_replace_cluster_def Let_def)

text \<open>
  Claim C1, as the code has it. \<open>should_replace_cluster\<close> answers yes exactly when the
  cluster name differs from the physical id, or the old and the new \<open>resourcesVpcConfig\<close>
  are not equal (as Python compares them), or the old and the new \<open>roleArn\<close> differ. The
  order of the keys of \<open>resourcesVpcConfig\<close> does not change the answer. For an old and a
  new configuration that are equal except for \<open>version\<close> the answer is no, provided the
  cluster name determined for the request is the physical id.
\<close>

theorem should_replace_cluster_decision:
  "(should_replace_cluster pid cn old vpc role \<longleftrightarrow>
      pid \<noteq> Some cn \<or> \<not> py_eq (get_json (resourcesVpcConfig old)) vpc \<or> roleArn old \<noteq> role)
   \<and> (distinct (map fst xs) \<and> distinct (map fst ys) \<and> set xs = set ys \<longrightarrow>
        should_replace_cluster pid cn old (JObj ys) role
        = should_replace_cluster pid cn old (JObj xs) role)
   \<and> (determine_cluster_name new pid ''Update'' rid = Inr cn \<and> pid = Some cn
        \<and> old\<lparr>version := version new\<rparr> = new \<and> wf_json (get_json (resourcesVpcConfig new)) \<longrightarrow>
        \<not> should_replace_cluster pid cn old (get_json (resourcesVpcConfig new)) (roleArn new))"
proof (intro conjI impI)
  show "should_replace_cluster pid cn old vpc role \<longleftrightarrow>
      pid \<noteq> Some cn \<or> \<not> py_eq (get_json (resourcesVpcConfig old)) vpc \<or> roleArn old \<noteq> role"
    by (rule should_replace_iff)
next
  assume "distinct (map fst xs) \<and> distinct (map fst ys) \<and> set xs = set ys"
  then have "py_eq (get_json (resourcesVpcConfig old)) (JObj ys)
             = py_eq (get_json (resourcesVpcConfig old)) (JObj xs)"
    using py_eq_key_order[of ys xs] by simp
  then show "should_replace_cluster pid cn old (JObj ys) role
             = should_replace_cluster pid cn old (JObj xs) role"
    by (simp add: should_replace_iff)
next
  assume a: "determine_cluster_name new pid ''Update'' rid = Inr cn \<and> pid = Some cn
        \<and> old\<lparr>version := version new\<rparr> = new \<and> wf_json (get_json (resourcesVpcConfig new))"
  then have e: "old\<lparr>version := version new\<rparr> = new" by simp
  have "resourcesVpcConfig old = resourcesVpcConfig (old\<lparr>version := version new\<rparr>)" by simp
  then have v: "resourcesVpcConfig old = resourcesVpcConfig new" using e by simp
  have "roleArn old = roleArn (old\<lparr>version := version new\<rparr>)" by simp
  then have r: "roleArn old = roleArn new" using e by simp
  show "\<not> should_replace_cluster pid cn old (get_json (resourcesVpcConfig new)) (roleArn new)"
    using a v r by (simp add: should_replace_iff py_eq_refl)
qed

text \<open>
  The theorem at a request that changes the version of the cluster \<open>prod\<close> from 1.20 to
  1.21, and at the same network configuration with its keys in the other order.
\<close>

theorem should_replace_cluster_decision_witness:
  "determine_cluster_name
     \<lparr>name = None,
        resourcesVpcConfig = Some (JObj [(''subnetIds'', JList [JStr ''s1'', JStr ''s2'']),
                                         (''securityGroupIds'', JList [JStr ''g1''])]),
        roleArn = Some ''role'', version = Some ''1.21'', other = []\<rparr>
     (Some ''prod'') ''Update'' ''req1'' = Inr ''prod''
   \<and> \<not> should_replace_cluster (Some ''prod'') ''prod''
        \<lparr>name = None,
           resourcesVpcConfig = Some (JObj [(''subnetIds'', JList [JStr ''s1'', JStr ''s2'']),
                                            (''securityGroupIds'', JList [JStr ''g1''])]),
           roleArn = Some ''role'', version = Some ''1.20'', other = []\<rparr>
        (JObj [(''subnetIds'', JList [JStr ''s1'', JStr ''s2'']),
               (''securityGroupIds'', JList [JStr ''g1''])])
        (Some ''role'')
   \<and> should_replace_cluster (Some ''prod'') ''prod''
        \<lparr>name = None,
           resourcesVpcConfig = Some (JObj [(''subnetIds'', JList [JStr ''s1'', JStr ''s2'']),
                                            (''securityGroupIds'', JList [JStr ''g1''])]),
           roleArn = Some ''role'', version = Some ''1.20'', other = []\<rparr>
        (JObj [(''securityGroupIds'', JList [JStr ''g1'']),
               (''subnetIds'', JList [JStr ''s1'', JStr ''s2''])])
        (Some ''role'')
      = should_replace_cluster (Some ''prod'') ''prod''
        \<lparr>name = None,
           resourcesVpcConfig = Some (JObj [(''subnetIds'', JList [JStr ''s1'', JStr ''s2'']),
                                            (''securityGroupIds'', JList [JStr ''g1''])]),
           roleArn = Some ''role'', version = Some ''1.20'', other = []\<rparr>
        (JObj [(''subnetIds'', JList [JStr ''s1'', JStr ''s2'']),
               (''securityGroupIds'', JList [JStr ''g1''])])
        (Some ''role'')"
proof -
  let ?xs = "[(''subnetIds'', JList [JStr ''s1'', JStr ''s2'']),
              (''securityGroupIds'', JList [JStr ''g1''])]"
  let ?ys = "[(''securityGroupIds'', JList [JStr ''g1'']),
              (''subnetIds'', JList [JStr ''s1'', JStr ''s2''])]"
  let ?new = "\<lparr>name = None, resourcesVpcConfig = Some (JObj ?xs),
                 roleArn = Some ''role'', version = Some ''1.21'', other = []\<rparr>"
  let ?old = "\<lparr>name = None, resourcesVpcConfig = Some (JObj ?xs),
                 roleArn = Some ''role'', version = Some ''1.20'', other = []\<rparr>"
  have n: "determine_cluster_name ?new (Some ''prod'') ''Update'' ''req1'' = Inr ''prod''"
    by (simp add: determine_cluster_name_def truthy_def str_or_def)
  have k: "distinct (map fst ?xs) \<and> distinct (map fst ?ys) \<and> set ?xs = set ?ys"
    by auto
  have e: "?old\<lparr>version := version ?new\<rparr> = ?new \<and> wf_json (get_json (resourcesVpcConfig ?new))"
    by (simp add: get_json_def)
  show ?thesis
    using n k e
      should_replace_cluster_decision[of "Some ''prod''" "''prod''" ?old "JObj ?xs" "Some ''role''"
        ?xs ?ys ?new "''req1''"]
    by (simp add: get_json_def)
qed

text \<open>
  Claim C1 as the specification states it fails: the old and the new configuration below
  are equal except for \<open>version\<close>, and the answer is yes, since the name they give
  (\<open>prod\<close>) is not the physical id of the cluster (which a replacement had named
  \<open>cluster-req0\<close>).
\<close>

theorem should_replace_cluster_version_only_counterexample:
  "determine_cluster_name
      \<lparr>name = Some ''prod'', resourcesVpcConfig = None, roleArn = Some ''role'',
         version = Some ''1.21'', other = []\<rparr>
      (Some ''cluster-req0'') ''Update'' ''req1'' = Inr ''prod''
   \<and> \<lparr>name = Some ''prod'', resourcesVpcConfig = None, roleArn = Some ''role'',
        version = Some ''1.20'', other = []\<rparr>\<lparr>version := Some ''1.21''\<rparr>
      = \<lparr>name = Some ''prod'', resourcesVpcConfig = None, roleArn = Some ''role'',
           version = Some ''1.21'', other = []\<rparr>
   \<and> should_replace_cluster (Some ''cluster-req0'') ''prod''
        \<lparr>name = Some ''prod'', resourcesVpcConfig = None, roleArn = Some ''role'',
           version = Some ''1.20'', other = []\<rparr>
        (get_json None) (Some ''role'')"
  by (simp add: determine_cluster_name_def should_replace_cluster_def)


section \<open>Responses\<close>

text \<open>With the four keys present, \<open>cfn_send\<close> puts one response and returns.\<close>

lemma cfn_send_envelope:
  assumes "envelope ev url sid rid lid"
  shows "cfn_send put ev ctx st data pid ne reason w =
    (None, w\<lparr>sent := sent w @
       [Put url (responseBody st (str_or reason (see_details ctx))
                   (str_or pid (event_physical_id ev ctx)) sid rid lid ne data)
            (put url (responseBody st (str_or reason (see_details ctx))
                   (str_or pid (event_physical_id ev ctx)) sid rid lid ne data))]\<rparr>)"
  using assms by (simp add: cfn_send_def envelope_def Let_def event_physical_id_def)

lemma cfn_send_calls: "calls (snd (cfn_send put ev ctx st data pid ne reason w)) = calls w"
  by (simp add: cfn_send_def Let_def split: option.splits)

lemma update_cluster_sent:
  "update_cluster eks rid pid cfg old cn w = (r, w') \<Longrightarrow> sent w' = sent w"
  by (auto simp: update_cluster_def invoke_def Let_def split: sum.splits option.splits if_splits)

lemma create_or_update_sent:
  "create_or_update eks rt rid pid cfg old cn w = (r, w') \<Longrightarrow> sent w' = sent w"
  by (auto simp: create_or_update_def invoke_def split: sum.splits if_splits dest: update_cluster_sent)

lemma wait_and_report_sent:
  assumes "envelope ev url sid rid lid" and "wait_and_report eks put ev ctx cn w = (r, w')"
  shows "length (sent w') = length (sent w) + (if r = None then 1 else 0)"
  using assms(2)
  by (auto simp: wait_and_report_def invoke_def cfn_send_envelope[OF assms(1)]
           split: sum.splits)

lemma delete_and_report_sent:
  assumes "envelope ev url sid rid lid" and "delete_and_report eks put ev ctx cn w = (r, w')"
  shows "length (sent w') = length (sent w) + (if r = None then 1 else 0)"
  using assms(2)
  by (auto simp: delete_and_report_def invoke_def cfn_send_envelope[OF assms(1)]
           split: sum.splits)

lemma reconcile_sent:
  assumes env: "envelope ev url sid rid lid"
    and run: "reconcile eks put ev ctx rid' rt pid cfg old w = (r, w')"
  shows "length (sent w') = length (sent w) + (if r = None then 1 else 0)"
proof (cases "eks (calls w) Create_client")
  case (Inl e)
  then show ?thesis using run by (auto simp: reconcile_def invoke_def)
next
  case client: (Inr c)
  let ?w0 = "w\<lparr>calls := calls w @ [Create_client]\<rparr>"
  show ?thesis
  proof (cases "determine_cluster_name cfg pid rt rid'")
    case (Inl e)
    then show ?thesis using client run by (auto simp: reconcile_def invoke_def)
  next
    case cn: (Inr cn)
    show ?thesis
    proof (cases "rt = ''Delete''")
      case True
      then have "delete_and_report eks put ev ctx cn ?w0 = (r, w')"
        using client cn run by (simp add: reconcile_def invoke_def)
      from delete_and_report_sent[OF env this] show ?thesis by simp
    next
      case False
      obtain r1 w1 where cu: "create_or_update eks rt rid' pid (cfg\<lparr>name := Some cn\<rparr>) old cn ?w0 = (r1, w1)"
        by (cases "create_or_update eks rt rid' pid (cfg\<lparr>name := Some cn\<rparr>) old cn ?w0")
      have s1: "sent w1 = sent w" using create_or_update_sent[OF cu] by simp
      show ?thesis
      proof (cases r1)
        case (Inl e)
        then show ?thesis using client cn False cu s1 run by (auto simp: reconcile_def invoke_def)
      next
        case (Inr cn')
        then have "wait_and_report eks put ev ctx cn' w1 = (r, w')"
          using client cn False cu run by (simp add: reconcile_def invoke_def)
        from wait_and_report_sent[OF env this] show ?thesis using s1 by simp
      qed
    qed
  qed
qed

lemma handler_body_sent:
  assumes env: "envelope ev url sid rid lid"
    and run: "handler_body eks put ev ctx w = (r, w')"
  shows "length (sent w') = length (sent w) + (if r = None then 1 else 0)"
  using run reconcile_sent[OF env]
  by (auto simp: handler_body_def Let_def split: option.splits)

lemma helm_chart_cfn_send_envelope:
  assumes "envelope ev url sid rid lid"
  shows "helm_chart_cfn_send put ev ctx st data pid ne reason w =
    (None, w\<lparr>sent := sent w @
       [Put url (responseBody st (str_or reason (see_details ctx))
                   (str_or pid (log_stream_name ctx)) sid rid lid ne data)
            (put url (responseBody st (str_or reason (see_details ctx))
                   (str_or pid (log_stream_name ctx)) sid rid lid ne data))]\<rparr>)"
  using assms by (simp add: helm_chart_cfn_send_def envelope_def Let_def)

lemma helm_chart_helm_sent:
  "helm_chart_helm os verb release chart repo vf ns ver w = (r, w') \<Longrightarrow> sent w' = sent w"
  by (auto simp: helm_chart_helm_def invoke_def split: completed.splits)

lemma helm_chart_run_sent:
  "helm_chart_run os rt release chart repo vf ns ver w = (r, w') \<Longrightarrow> sent w' = sent w"
  by (auto simp: helm_chart_run_def split: if_splits option.splits prod.splits dest: helm_chart_helm_sent)

lemma helm_chart_handler_body_sent:
  assumes env: "envelope ev url sid rid lid"
    and run: "helm_chart_handler_body os put ev ctx w = (r, w')"
  shows "length (sent w') = length (sent w) + (if r = None then 1 else 0)"
proof (cases "\<exists>rt props release chart cn. RequestType ev = Some rt \<and> ResourceProperties ev = Some props
      \<and> Release props = Some release \<and> Chart props = Some chart \<and> CLUSTER_NAME os = Some cn
      \<and> check_call os [''aws'', ''eks'', ''update-kubeconfig'', ''--name'', cn,
                          ''--kubeconfig'', kubeconfig os] = None")
  case False
  then show ?thesis
    using run
    apply (auto simp: helm_chart_handler_body_def Let_def helm_chart_cfn_error_def
          helm_chart_cfn_send_envelope[OF env] split: option.splits)
    by metis
next
  case True
  then obtain rt props release chart cn where h: "RequestType ev = Some rt"
      "ResourceProperties ev = Some props" "Release props = Some release"
      "Chart props = Some chart" "CLUSTER_NAME os = Some cn"
      "check_call os [''aws'', ''eks'', ''update-kubeconfig'', ''--name'', cn,
                          ''--kubeconfig'', kubeconfig os] = None"
    by blast
  show ?thesis
  proof (cases "helm_chart_values os rt (Values props)")
    case (Inl e)
    then show ?thesis using run h by (auto simp: helm_chart_handler_body_def Let_def)
  next
    case (Inr vf)
    obtain r1 w1 where hr: "helm_chart_run os rt release chart (Repository props) vf
             (Namespace props) (Version props) w = (r1, w1)"
      by (cases "helm_chart_run os rt release chart (Repository props) vf
             (Namespace props) (Version props) w")
    have s1: "sent w1 = sent w" using helm_chart_run_sent[OF hr] .
    show ?thesis
      using run h Inr hr s1
      by (cases r1) (auto simp: helm_chart_handler_body_def Let_def helm_chart_cfn_error_def
          helm_chart_cfn_send_envelope[OF env] split: if_splits)
  qed
qed

text \<open>
  Claim C4, as the code has it. For a request that carries the four keys of the response,
  each handler returns (no exception leaves it) and has put exactly one response, whatever
  the EKS client, the operating system and the transport do; in particular a put that raises
  changes nothing. When an exception \<open>e\<close> leaves the body of the \<open>try\<close>, that response is a
  \<open>FAILED\<close> one whose reason is \<open>str(e)\<close> (the pointer to the log stream when \<open>str(e)\<close>
  is empty; for a \<open>KeyError\<close> in the helm chart handler, \<open>str(e)\<close> inside the
  "invalid request" message). An exception that is caught inside the body does not reach
  that boundary.
\<close>

theorem exactly_one_response:
  assumes "envelope ev url sid rid lid" and "envelope hev hurl hsid hrid hlid"
  shows "fst (handler eks put ev ctx) = None
    \<and> length (sent (snd (handler eks put ev ctx))) = 1
    \<and> (\<forall>e w. handler_body eks put ev ctx start = (Some e, w) \<longrightarrow>
          sent (snd (handler eks put ev ctx))
          = [Put url (responseBody CFN_FAILED (if str_exn e = [] then see_details ctx else str_exn e)
                        (event_physical_id ev ctx) sid rid lid False (JObj []))
                 (put url (responseBody CFN_FAILED (if str_exn e = [] then see_details ctx else str_exn e)
                        (event_physical_id ev ctx) sid rid lid False (JObj [])))])
    \<and> fst (helm_chart_handler os put hev ctx) = None
    \<and> length (sent (snd (helm_chart_handler os put hev ctx))) = 1
    \<and> (\<forall>e w. helm_chart_handler_body os put hev ctx start = (Some e, w) \<longrightarrow>
          sent (snd (helm_chart_handler os put hev ctx))
          = [Put hurl (responseBody CFN_FAILED
                         (case e of KeyError k \<Rightarrow> missing_key e
                          | _ \<Rightarrow> if str_exn e = [] then see_details ctx else str_exn e)
                         (log_stream_name ctx) hsid hrid hlid False (JObj []))
                 (put hurl (responseBody CFN_FAILED
                         (case e of KeyError k \<Rightarrow> missing_key e
                          | _ \<Rightarrow> if str_exn e = [] then see_details ctx else str_exn e)
                         (log_stream_name ctx) hsid hrid hlid False (JObj [])))])"
proof -
  obtain r w where b: "handler_body eks put ev ctx start = (r, w)"
    by (cases "handler_body eks put ev ctx start")
  have l: "length (sent w) = (if r = None then 1 else 0)"
    using handler_body_sent[OF assms(1) b] by (simp add: start_def)
  have c1: "fst (handler eks put ev ctx) = None \<and> length (sent (snd (handler eks put ev ctx))) = 1"
    using b l by (cases r) (simp_all add: handler_def cfn_error_def cfn_send_envelope[OF assms(1)])
  have c2: "\<forall>e w. handler_body eks put ev ctx start = (Some e, w) \<longrightarrow>
          sent (snd (handler eks put ev ctx))
          = [Put url (responseBody CFN_FAILED (if str_exn e = [] then see_details ctx else str_exn e)
                        (event_physical_id ev ctx) sid rid lid False (JObj []))
                 (put url (responseBody CFN_FAILED (if str_exn e = [] then see_details ctx else str_exn e)
                        (event_physical_id ev ctx) sid rid lid False (JObj [])))]"
    using b l
    by (auto simp: handler_def cfn_error_def cfn_send_envelope[OF assms(1)] str_or_def)
  obtain hr hw where hb: "helm_chart_handler_body os put hev ctx start = (hr, hw)"
    by (cases "helm_chart_handler_body os put hev ctx start")
  have hl: "length (sent hw) = (if hr = None then 1 else 0)"
    using helm_chart_handler_body_sent[OF assms(2) hb] by (simp add: start_def)
  have m: "missing_key x \<noteq> []" for x by (simp add: missing_key_def)
  have c3: "fst (helm_chart_handler os put hev ctx) = None
      \<and> length (sent (snd (helm_chart_handler os put hev ctx))) = 1"
    using hb hl
    by (cases hr) (simp_all add: helm_chart_handler_def helm_chart_cfn_error_def
          helm_chart_cfn_send_envelope[OF assms(2)] split: exn.splits)
  have c4: "\<forall>e w. helm_chart_handler_body os put hev ctx start = (Some e, w) \<longrightarrow>
          sent (snd (helm_chart_handler os put hev ctx))
          = [Put hurl (responseBody CFN_FAILED
                         (case e of KeyError k \<Rightarrow> missing_key e
                          | _ \<Rightarrow> if str_exn e = [] then see_details ctx else str_exn e)
                         (log_stream_name ctx) hsid hrid hlid False (JObj []))
                 (put hurl (responseBody CFN_FAILED
                         (case e of KeyError k \<Rightarrow> missing_key e
                          | _ \<Rightarrow> if str_exn e = [] then see_details ctx else str_exn e)
                         (log_stream_name ctx) hsid hrid hlid False (JObj [])))]"
    using hb hl m
    by (auto simp: helm_chart_handler_def helm_chart_cfn_error_def
          helm_chart_cfn_send_envelope[OF assms(2)] str_or_def split: exn.splits)
  show ?thesis using c1 c2 c3 c4 by blast
qed


text \<open>
  The theorem at an update whose client cannot be created and at a chart request without
  \<open>Release\<close>, with a transport that raises on every put.
\<close>

theorem exactly_one_response_witness:
  "envelope
     \<lparr>StackId = Some ''stack'', RequestId = Some ''req1'', RequestType = Some ''Update'',
        ResourceProperties = Some \<lparr>Config = Some empty_config\<rparr>, OldResourceProperties = None,
        PhysicalResourceId = Some ''prod'', LogicalResourceId = Some ''Cluster'',
        ResponseURL = Some ''https://cfn/response''\<rparr>
     ''https://cfn/response'' ''stack'' ''req1'' ''Cluster''
   \<and> envelope
     \<lparr>StackId = Some ''stack'', RequestId = Some ''req2'', RequestType = Some ''Create'',
        ResourceProperties = Some \<lparr>Release = None, Chart = Some ''nginx'', Version = None,
          Namespace = None, Repository = None, Values = None\<rparr>, OldResourceProperties = None,
        PhysicalResourceId = None, LogicalResourceId = Some ''Chart'',
        ResponseURL = Some ''https://cfn/response''\<rparr>
     ''https://cfn/response'' ''stack'' ''req2'' ''Chart''
   \<and> handler_body (\<lambda>h c. Inl (Exception ''AccessDenied'')) (\<lambda>u b. Some (Exception ''timed out''))
       \<lparr>StackId = Some ''stack'', RequestId = Some ''req1'', RequestType = Some ''Update'',
          ResourceProperties = Some \<lparr>Config = Some empty_config\<rparr>, OldResourceProperties = None,
          PhysicalResourceId = Some ''prod'', LogicalResourceId = Some ''Cluster'',
          ResponseURL = Some ''https://cfn/response''\<rparr>
       \<lparr>log_stream_name = ''log''\<rparr> start
     = (Some (Exception ''AccessDenied''), \<lparr>calls = [Create_client], sent = []\<rparr>)
   \<and> sent (snd (handler (\<lambda>h c. Inl (Exception ''AccessDenied'')) (\<lambda>u b. Some (Exception ''timed out''))
       \<lparr>StackId = Some ''stack'', RequestId = Some ''req1'', RequestType = Some ''Update'',
          ResourceProperties = Some \<lparr>Config = Some empty_config\<rparr>, OldResourceProperties = None,
          PhysicalResourceId = Some ''prod'', LogicalResourceId = Some ''Cluster'',
          ResponseURL = Some ''https://cfn/response''\<rparr>
       \<lparr>log_stream_name = ''log''\<rparr>))
     = [Put ''https://cfn/response''
          (responseBody ''FAILED'' ''AccessDenied'' ''prod'' ''stack'' ''req1'' ''Cluster'' False (JObj []))
          (Some (Exception ''timed out''))]
   \<and> helm_chart_handler_body
       \<lparr>CLUSTER_NAME = Some ''prod'', outdir = ''/tmp'', check_call = (\<lambda>c. None),
          write_values = (\<lambda>f t. None), check_output = (\<lambda>h c. Output []), uuid4 = ''u1''\<rparr>
       (\<lambda>u b. Some (Exception ''timed out''))
       \<lparr>StackId = Some ''stack'', RequestId = Some ''req2'', RequestType = Some ''Create'',
          ResourceProperties = Some \<lparr>Release = None, Chart = Some ''nginx'', Version = None,
            Namespace = None, Repository = None, Values = None\<rparr>, OldResourceProperties = None,
          PhysicalResourceId = None, LogicalResourceId = Some ''Chart'',
          ResponseURL = Some ''https://cfn/response''\<rparr>
       \<lparr>log_stream_name = ''log''\<rparr> start
     = (Some (KeyError ''Release''), \<lparr>calls = [], sent = []\<rparr>)
   \<and> sent (snd (helm_chart_handler
       \<lparr>CLUSTER_NAME = Some ''prod'', outdir = ''/tmp'', check_call = (\<lambda>c. None),
          write_values = (\<lambda>f t. None), check_output = (\<lambda>h c. Output []), uuid4 = ''u1''\<rparr>
       (\<lambda>u b. Some (Exception ''timed out''))
       \<lparr>StackId = Some ''stack'', RequestId = Some ''req2'', RequestType = Some ''Create'',
          ResourceProperties = Some \<lparr>Release = None, Chart = Some ''nginx'', Version = None,
            Namespace = None, Repository = None, Values = None\<rparr>, OldResourceProperties = None,
          PhysicalResourceId = None, LogicalResourceId = Some ''Chart'',
          ResponseURL = Some ''https://cfn/response''\<rparr>
       \<lparr>log_stream_name = ''log''\<rparr>))
     = [Put ''https://cfn/response''
          (responseBody ''FAILED'' (missing_key (KeyError ''Release'')) ''log'' ''stack'' ''req2''
             ''Chart'' False (JObj []))
          (Some (Exception ''timed out''))]"
proof -
  let ?ev = "\<lparr>StackId = Some ''stack'', RequestId = Some ''req1'', RequestType = Some ''Update'',
        ResourceProperties = Some \<lparr>Config = Some empty_config\<rparr>, OldResourceProperties = None,
        PhysicalResourceId = Some ''prod'', LogicalResourceId = Some ''Cluster'',
        ResponseURL = Some ''https://cfn/response''\<rparr>"
  let ?hev = "\<lparr>StackId = Some ''stack'', RequestId = Some ''req2'', RequestType = Some ''Create'',
        ResourceProperties = Some \<lparr>Release = None, Chart = Some ''nginx'', Version = None,
          Namespace = None, Repository = None, Values = None\<rparr>, OldResourceProperties = None,
        PhysicalResourceId = None, LogicalResourceId = Some ''Chart'',
        ResponseURL = Some ''https://cfn/response''\<rparr>"
  let ?os = "\<lparr>CLUSTER_NAME = Some ''prod'', outdir = ''/tmp'', check_call = (\<lambda>c. None),
          write_values = (\<lambda>f t. None), check_output = (\<lambda>h c. Output []), uuid4 = ''u1''\<rparr>"
  let ?eks = "\<lambda>(h :: eks_call list) (c :: eks_call). (Inl (Exception ''AccessDenied'') :: exn + json)"
  let ?put = "\<lambda>(u :: string) (b :: json). Some (Exception ''timed out'')"
  let ?ctx = "\<lparr>log_stream_name = ''log''\<rparr>"
  have e1: "envelope ?ev ''https://cfn/response'' ''stack'' ''req1'' ''Cluster''"
    by (simp add: envelope_def)
  have e2: "envelope ?hev ''https://cfn/response'' ''stack'' ''req2'' ''Chart''"
    by (simp add: envelope_def)
  have b1: "handler_body ?eks ?put ?ev ?ctx start
            = (Some (Exception ''AccessDenied''), \<lparr>calls = [Create_client], sent = []\<rparr>)"
    by (simp add: handler_body_def reconcile_def invoke_def start_def)
  have b2: "helm_chart_handler_body ?os ?put ?hev ?ctx start
            = (Some (KeyError ''Release''), \<lparr>calls = [], sent = []\<rparr>)"
    by (simp add: helm_chart_handler_body_def start_def)
  show ?thesis
    using e1 e2 b1 b2 exactly_one_response[OF e1 e2, of ?eks ?put ?ctx ?os]
    by (simp add: event_physical_id_def CFN_FAILED_def)
qed

text \<open>
  Claim C4 as the specification states it fails for an error that is raised inside the
  path and caught before the outermost boundary: the \<open>helm uninstall\<close> of the delete below
  exits with an error, \<open>helm\<close> raises an exception with its output, the handler of the
  delete catches it, and the one response is \<open>SUCCESS\<close> with the default reason.
\<close>

theorem uninstall_error_answered_success_counterexample:
  "helm_chart_helm
     \<lparr>CLUSTER_NAME = Some ''prod'', outdir = ''/tmp'', check_call = (\<lambda>c. None),
        write_values = (\<lambda>f t. None),
        check_output = (\<lambda>h c. CalledProcessError ''Error: uninstall: Release not loaded: web: release: not found''),
        uuid4 = ''4321''\<rparr>
     ''uninstall'' ''web'' None None None None None (start :: string list world)
   = (Some (Exception_bytes ''Error: uninstall: Release not loaded: web: release: not found''),
      \<lparr>calls = [[''helm'', ''uninstall'', ''web'', ''--kubeconfig'', ''/tmp/kubeconfig'']],
         sent = []\<rparr>)
   \<and> helm_chart_handler
     \<lparr>CLUSTER_NAME = Some ''prod'', outdir = ''/tmp'', check_call = (\<lambda>c. None),
        write_values = (\<lambda>f t. None),
        check_output = (\<lambda>h c. CalledProcessError ''Error: uninstall: Release not loaded: web: release: not found''),
        uuid4 = ''4321''\<rparr>
     (\<lambda>u b. None)
     (chart_event ''Delete'' ''req6'' (Some ''prod/4321'')
        \<lparr>Release = Some ''web'', Chart = Some ''nginx'', Version = None, Namespace = None,
           Repository = None, Values = None\<rparr>)
     \<lparr>log_stream_name = ''log''\<rparr>
   = (None,
      \<lparr>calls = [[''helm'', ''uninstall'', ''web'', ''--kubeconfig'', ''/tmp/kubeconfig'']],
         sent = [Put ''https://cloudformation.example/response''
                  (responseBody ''SUCCESS'' ''See the details in CloudWatch Log Stream: log''
                     ''prod/4321'' ''arn:aws:cloudformation:stack/s'' ''req6'' ''Chart'' False
                     (JObj []))
                  None]\<rparr>)"
  by (simp add: helm_chart_handler_def helm_chart_handler_body_def helm_chart_run_def
        helm_chart_values_def helm_chart_helm_def helm_chart_cmnd_def helm_chart_cfn_send_def
        helm_chart_cfn_error_def opt_args_def kubeconfig_def path_join_def invoke_def start_def
        Let_def str_or_def truthy_def chart_event_def CFN_SUCCESS_def see_details_def)

section \<open>The retries of the command runner\<close>

text \<open>\<open>contains sub s\<close> says that \<open>sub\<close> occurs in \<open>s\<close>.\<close>

lemma contains_iff: "contains sub s \<longleftrightarrow> (\<exists>pre post. s = pre @ sub @ post)"
proof (induction s)
  case Nil
  show ?case by auto
next
  case (Cons c cs)
  have "take (length sub) (c # cs) = sub \<longleftrightarrow> (\<exists>post. c # cs = sub @ post)"
    by (metis append_eq_conv_conj append_take_drop_id)
  moreover have "(\<exists>pre post. c # cs = pre @ sub @ post)
      \<longleftrightarrow> (\<exists>post. c # cs = sub @ post) \<or> (\<exists>pre post. cs = pre @ sub @ post)"
  proof
    assume "\<exists>pre post. c # cs = pre @ sub @ post"
    then obtain pre post where e: "c # cs = pre @ sub @ post" by blast
    show "(\<exists>post. c # cs = sub @ post) \<or> (\<exists>pre post. cs = pre @ sub @ post)"
    proof (cases pre)
      case Nil
      then show ?thesis using e by auto
    next
      case (Cons a pre')
      then have "cs = pre' @ sub @ post" using e by simp
      then show ?thesis by blast
    qed
  next
    assume "(\<exists>post. c # cs = sub @ post) \<or> (\<exists>pre post. cs = pre @ sub @ post)"
    then show "\<exists>pre post. c # cs = pre @ sub @ post"
    proof
      assume "\<exists>post. c # cs = sub @ post"
      then obtain post where "c # cs = [] @ sub @ post" by auto
      then show ?thesis by blast
    next
      assume "\<exists>pre post. cs = pre @ sub @ post"
      then obtain pre post where "c # cs = (c # pre) @ sub @ post" by auto
      then show ?thesis by blast
    qed
  qed
  ultimately show ?case using Cons.IH by simp
qed

lemma helm_loop_runs:
  "length (calls (snd (helm_loop os cmnd n outp w))) \<le> length (calls w) + n"
proof (induction n arbitrary: outp w)
  case 0
  show ?case by (simp split: option.splits)
next
  case (Suc n)
  show ?case
  proof (cases "check_output os (calls w) cmnd")
    case (Output out)
    then show ?thesis by (simp add: invoke_def)
  next
    case (CalledProcessError out)
    show ?thesis
    proof (cases "contains ''Broken pipe'' out")
      case True
      have "length (calls (snd (helm_loop os cmnd n (Some out) (w\<lparr>calls := calls w @ [cmnd]\<rparr>))))
            \<le> length (calls (w\<lparr>calls := calls w @ [cmnd]\<rparr>)) + n" by (rule Suc.IH)
      then show ?thesis using CalledProcessError True by (simp add: invoke_def)
    next
      case False
      then show ?thesis using CalledProcessError by (simp add: invoke_def)
    qed
  next
    case (Raised e)
    then show ?thesis by (simp add: invoke_def)
  qed
qed


text \<open>
  Claim C6. \<open>helm\<close> runs its command at most three times. A run that fails with
  \<open>Broken pipe\<close> in its output is followed by another run, so two such failures and a
  success end in a normal return after the third run. A failure whose output lacks
  \<open>Broken pipe\<close> raises at once an exception that carries the output, with no further
  run, whether it is the first, the second or the third run. Three failures with
  \<open>Broken pipe\<close> raise \<open>Operation failed after 3 attempts\<close> with the last output.
\<close>

theorem helm_retries_broken_pipe:
  assumes cmnd: "cmnd = helm_cmnd os verb release chart repo values_file namespace ver wt tmo create_namespace"
    and run: "run = helm os verb release chart repo values_file namespace ver wt tmo create_namespace start"
  shows "length (calls (snd run)) \<le> 3
   \<and> (check_output os [] cmnd = CalledProcessError o1 \<and> contains ''Broken pipe'' o1
      \<and> check_output os [cmnd] cmnd = CalledProcessError o2 \<and> contains ''Broken pipe'' o2
      \<and> check_output os [cmnd, cmnd] cmnd = Output out
      \<longrightarrow> run = (None, \<lparr>calls = [cmnd, cmnd, cmnd], sent = []\<rparr>))
   \<and> (check_output os [] cmnd = CalledProcessError o1 \<and> \<not> contains ''Broken pipe'' o1
      \<longrightarrow> run = (Some (Exception_bytes o1), \<lparr>calls = [cmnd], sent = []\<rparr>))
   \<and> (check_output os [] cmnd = CalledProcessError o1 \<and> contains ''Broken pipe'' o1
      \<and> check_output os [cmnd] cmnd = CalledProcessError o2 \<and> \<not> contains ''Broken pipe'' o2
      \<longrightarrow> run = (Some (Exception_bytes o2), \<lparr>calls = [cmnd, cmnd], sent = []\<rparr>))
   \<and> (check_output os [] cmnd = CalledProcessError o1 \<and> contains ''Broken pipe'' o1
      \<and> check_output os [cmnd] cmnd = CalledProcessError o2 \<and> contains ''Broken pipe'' o2
      \<and> check_output os [cmnd, cmnd] cmnd = CalledProcessError o3 \<and> \<not> contains ''Broken pipe'' o3
      \<longrightarrow> run = (Some (Exception_bytes o3), \<lparr>calls = [cmnd, cmnd, cmnd], sent = []\<rparr>))
   \<and> (check_output os [] cmnd = CalledProcessError o1 \<and> contains ''Broken pipe'' o1
      \<and> check_output os [cmnd] cmnd = CalledProcessError o2 \<and> contains ''Broken pipe'' o2
      \<and> check_output os [cmnd, cmnd] cmnd = CalledProcessError o3 \<and> contains ''Broken pipe'' o3
      \<longrightarrow> run = (Some (Exception (''Operation failed after 3 attempts: '' @ repr_bytes o3)),
                 \<lparr>calls = [cmnd, cmnd, cmnd], sent = []\<rparr>))"
proof -
  have three: "maxAttempts = Suc (Suc (Suc 0))" by (simp add: maxAttempts_def)
  have r: "run = helm_loop os cmnd (Suc (Suc (Suc 0))) None start"
    by (simp add: run helm_def cmnd three)
  have "length (calls (snd run)) \<le> 3"
    using helm_loop_runs[of os cmnd "Suc (Suc (Suc 0))" None start] by (simp add: r start_def)
  moreover have "check_output os [] cmnd = CalledProcessError o1 \<and> contains ''Broken pipe'' o1
      \<and> check_output os [cmnd] cmnd = CalledProcessError o2 \<and> contains ''Broken pipe'' o2
      \<and> check_output os [cmnd, cmnd] cmnd = Output out
      \<longrightarrow> run = (None, \<lparr>calls = [cmnd, cmnd, cmnd], sent = []\<rparr>)"
    by (simp add: r start_def invoke_def)
  moreover have "check_output os [] cmnd = CalledProcessError o1 \<and> \<not> contains ''Broken pipe'' o1
      \<longrightarrow> run = (Some (Exception_bytes o1), \<lparr>calls = [cmnd], sent = []\<rparr>)"
    by (simp add: r start_def invoke_def)
  moreover have "check_output os [] cmnd = CalledProcessError o1 \<and> contains ''Broken pipe'' o1
      \<and> check_output os [cmnd] cmnd = CalledProcessError o2 \<and> \<not> contains ''Broken pipe'' o2
      \<longrightarrow> run = (Some (Exception_bytes o2), \<lparr>calls = [cmnd, cmnd], sent = []\<rparr>)"
    by (simp add: r start_def invoke_def)
  moreover have "check_output os [] cmnd = CalledProcessError o1 \<and> contains ''Broken pipe'' o1
      \<and> check_output os [cmnd] cmnd = CalledProcessError o2 \<and> contains ''Broken pipe'' o2
      \<and> check_output os [cmnd, cmnd] cmnd = CalledProcessError o3 \<and> \<not> contains ''Broken pipe'' o3
      \<longrightarrow> run = (Some (Exception_bytes o3), \<lparr>calls = [cmnd, cmnd, cmnd], sent = []\<rparr>)"
    by (simp add: r start_def invoke_def)
  moreover have "check_output os [] cmnd = CalledProcessError o1 \<and> contains ''Broken pipe'' o1
      \<and> check_output os [cmnd] cmnd = CalledProcessError o2 \<and> contains ''Broken pipe'' o2
      \<and> check_output os [cmnd, cmnd] cmnd = CalledProcessError o3 \<and> contains ''Broken pipe'' o3
      \<longrightarrow> run = (Some (Exception (''Operation failed after 3 attempts: '' @ repr_bytes o3)),
                 \<lparr>calls = [cmnd, cmnd, cmnd], sent = []\<rparr>)"
    by (simp add: r start_def invoke_def)
  ultimately show ?thesis by blast
qed

text \<open>
  The theorem at an uninstall whose first two runs lose the connection and whose third run
  succeeds.
\<close>

theorem helm_retries_broken_pipe_witness:
  "helm
     \<lparr>CLUSTER_NAME = None, outdir = ''/tmp'', check_call = (\<lambda>c. None),
        write_values = (\<lambda>f t. None),
        check_output = (\<lambda>h c. if length h < 2 then CalledProcessError ''write: Broken pipe''
                               else Output ''release uninstalled''),
        uuid4 = []\<rparr>
     ''uninstall'' ''web'' None None None None None False None False start
   = (None,
      \<lparr>calls = [[''helm'', ''uninstall'', ''web'', ''--kubeconfig'', ''/tmp/kubeconfig''],
                 [''helm'', ''uninstall'', ''web'', ''--kubeconfig'', ''/tmp/kubeconfig''],
                 [''helm'', ''uninstall'', ''web'', ''--kubeconfig'', ''/tmp/kubeconfig'']],
         sent = []\<rparr>)"
proof -
  let ?os = "\<lparr>CLUSTER_NAME = None, outdir = ''/tmp'', check_call = (\<lambda>c. None),
        write_values = (\<lambda>f t. None),
        check_output = (\<lambda>h c. if length h < 2 then CalledProcessError ''write: Broken pipe''
                               else Output ''release uninstalled''),
        uuid4 = []\<rparr>"
  let ?cmnd = "helm_cmnd ?os ''uninstall'' ''web'' None None None None None False None False"
  have c: "?cmnd = [''helm'', ''uninstall'', ''web'', ''--kubeconfig'', ''/tmp/kubeconfig'']"
    by (simp add: helm_cmnd_def opt_args_def kubeconfig_def path_join_def)
  have b: "contains ''Broken pipe'' ''write: Broken pipe''" by simp
  have h: "check_output ?os [] ?cmnd = CalledProcessError ''write: Broken pipe''
      \<and> contains ''Broken pipe'' ''write: Broken pipe''
      \<and> check_output ?os [?cmnd] ?cmnd = CalledProcessError ''write: Broken pipe''
      \<and> contains ''Broken pipe'' ''write: Broken pipe''
      \<and> check_output ?os [?cmnd, ?cmnd] ?cmnd = Output ''release uninstalled''"
    using b by simp
  show ?thesis
    using h helm_retries_broken_pipe[OF refl refl, of ?os "''uninstall''" "''web''" None None None
        None None False None False "''write: Broken pipe''" "''write: Broken pipe''"
        "''release uninstalled''" "''write: Broken pipe''"]
    unfolding c by blast
qed


section \<open>The runs of the cluster handler\<close>

text \<open>
  Once the event has the keys the handler reads, the body is \<open>reconcile\<close>; the calls made
  by an update never delete, create only for a replacement, and update the version only
  when a configuration names one.
\<close>

lemma handler_body_reads:
  assumes "envelope ev url sid rid lid" "RequestType ev = Some rt"
    "Option.bind (ResourceProperties ev) Config = Some cfg"
  shows "handler_body eks put ev ctx w
         = reconcile eks put ev ctx rid rt (PhysicalResourceId ev) cfg (old_config_of ev) w"
  using assms
  by (auto simp: handler_body_def envelope_def Let_def split: option.splits Option.bind_splits)

lemma not_replaced_physical_id:
  "\<not> should_replace_cluster pid cn old vpc role \<Longrightarrow> pid = Some cn"
  by (simp add: should_replace_cluster_def Let_def split: if_splits)

lemma cfn_send_keeps_calls: "cfn_send put ev ctx st data pid ne reason w = (r, w') \<Longrightarrow> calls w' = calls w"
  by (auto simp: cfn_send_def Let_def split: option.splits)

lemma handler_calls:
  "calls (snd (handler eks put ev ctx)) = calls (snd (handler_body eks put ev ctx start))"
  by (auto simp: handler_def cfn_error_def cfn_send_calls split: prod.splits option.splits)

lemma wait_and_report_calls:
  "wait_and_report eks put ev ctx cn w = (r, w') \<Longrightarrow>
   \<exists>zs. calls w' = calls w @ zs \<and> \<not> list_ex is_delete zs \<and> \<not> list_ex is_create zs
        \<and> \<not> list_ex is_update zs"
  by (auto simp: wait_and_report_def invoke_def split: sum.splits dest!: cfn_send_keeps_calls)

lemma update_cluster_calls:
  "update_cluster eks rid pid cfg old cn w = (r, w') \<Longrightarrow>
   \<exists>zs. calls w' = calls w @ zs \<and> \<not> list_ex is_delete zs
     \<and> (\<not> should_replace_cluster pid cn old (get_json (resourcesVpcConfig cfg)) (roleArn cfg)
          \<longrightarrow> \<not> list_ex is_create zs)
     \<and> (version old = None \<and> version cfg = None \<longrightarrow> \<not> list_ex is_update zs)"
  by (auto simp: update_cluster_def invoke_def Let_def split: sum.splits option.splits if_splits)

lemma reconcile_update_calls:
  assumes "reconcile eks put ev ctx rid ''Update'' pid cfg old w = (r, w')"
  shows "\<exists>zs. calls w' = calls w @ zs \<and> \<not> list_ex is_delete zs
     \<and> ((\<exists>cn. determine_cluster_name cfg pid ''Update'' rid = Inr cn
              \<and> \<not> should_replace_cluster pid cn old (get_json (resourcesVpcConfig cfg)) (roleArn cfg))
          \<longrightarrow> \<not> list_ex is_create zs)
     \<and> (version old = None \<and> version cfg = None \<longrightarrow> \<not> list_ex is_update zs)"
proof (cases "eks (calls w) Create_client")
  case (Inl e)
  then show ?thesis using assms by (auto simp: reconcile_def invoke_def)
next
  case client: (Inr c)
  let ?w0 = "w\<lparr>calls := calls w @ [Create_client]\<rparr>"
  show ?thesis
  proof (cases "determine_cluster_name cfg pid ''Update'' rid")
    case (Inl e)
    then show ?thesis using client assms by (auto simp: reconcile_def invoke_def)
  next
    case cn: (Inr cn)
    obtain r1 w1 where u: "update_cluster eks rid pid (cfg\<lparr>name := Some cn\<rparr>) old cn ?w0 = (r1, w1)"
      by (cases "update_cluster eks rid pid (cfg\<lparr>name := Some cn\<rparr>) old cn ?w0")
    from update_cluster_calls[OF u] obtain zs where zs: "calls w1 = calls ?w0 @ zs"
      "\<not> list_ex is_delete zs"
      "\<not> should_replace_cluster pid cn old (get_json (resourcesVpcConfig cfg)) (roleArn cfg)
          \<longrightarrow> \<not> list_ex is_create zs"
      "version old = None \<and> version cfg = None \<longrightarrow> \<not> list_ex is_update zs"
      by auto
    show ?thesis
    proof (cases r1)
      case (Inl e)
      then have "w' = w1" using client cn u assms
        by (simp add: reconcile_def invoke_def create_or_update_def)
      then show ?thesis using zs cn by auto
    next
      case (Inr cn')
      then have "wait_and_report eks put ev ctx cn' w1 = (r, w')"
        using client cn u assms by (simp add: reconcile_def invoke_def create_or_update_def)
      from wait_and_report_calls[OF this] obtain ys where "calls w' = calls w1 @ ys"
        "\<not> list_ex is_delete ys" "\<not> list_ex is_create ys" "\<not> list_ex is_update ys" by auto
      then show ?thesis using zs cn by auto
    qed
  qed
qed

lemma handler_update_no_delete:
  assumes "RequestType ev = Some ''Update''"
  shows "\<not> list_ex is_delete (calls (snd (handler eks put ev ctx)))"
proof -
  have "\<not> list_ex is_delete (calls (snd (reconcile eks put ev ctx rid ''Update'' pid cfg old start)))"
    for rid pid cfg old
    using reconcile_update_calls[of eks put ev ctx rid pid cfg old start
        "fst (reconcile eks put ev ctx rid ''Update'' pid cfg old start)"
        "snd (reconcile eks put ev ctx rid ''Update'' pid cfg old start)"]
    by (auto simp: start_def)
  then show ?thesis
    using assms
    by (auto simp: handler_calls handler_body_def Let_def start_def split: option.splits)
qed

lemma handler_update_trace:
  assumes env: "envelope ev url sid rid lid"
    and rt: "RequestType ev = Some ''Update''"
    and cfg: "Option.bind (ResourceProperties ev) Config = Some cfg"
  shows "(determine_cluster_name cfg (PhysicalResourceId ev) ''Update'' rid = Inr cn
          \<and> \<not> should_replace_cluster (PhysicalResourceId ev) cn (old_config_of ev)
                 (get_json (resourcesVpcConfig cfg)) (roleArn cfg)
          \<longrightarrow> \<not> list_ex is_create (calls (snd (handler eks put ev ctx))))
     \<and> (version (old_config_of ev) = None \<and> version cfg = None
          \<longrightarrow> \<not> list_ex is_update (calls (snd (handler eks put ev ctx))))"
  using reconcile_update_calls[of eks put ev ctx rid "PhysicalResourceId ev" cfg "old_config_of ev" start
        "fst (reconcile eks put ev ctx rid ''Update'' (PhysicalResourceId ev) cfg (old_config_of ev) start)"
        "snd (reconcile eks put ev ctx rid ''Update'' (PhysicalResourceId ev) cfg (old_config_of ev) start)"]
  by (auto simp: handler_calls handler_body_reads[OF env rt cfg] start_def)

lemma py_eq_JNull: "py_eq JNull v \<longleftrightarrow> v = JNull"
  by (cases v) simp_all

lemma reconcile_create_calls:
  assumes "eks (calls w) Create_client = Inr client"
    and "determine_cluster_name cfg pid ''Create'' rid = Inr cn"
  shows "\<exists>zs. calls (snd (reconcile eks put ev ctx rid ''Create'' pid cfg old w))
              = calls w @ [Create_client, Create_cluster (cfg\<lparr>name := Some cn\<rparr>)] @ zs"
proof (cases "eks (calls w @ [Create_client]) (Create_cluster (cfg\<lparr>name := Some cn\<rparr>))")
  case (Inl e)
  then show ?thesis using assms
    by (simp add: reconcile_def create_or_update_def invoke_def)
next
  case (Inr created)
  let ?w1 = "w\<lparr>calls := calls w @ [Create_client, Create_cluster (cfg\<lparr>name := Some cn\<rparr>)]\<rparr>"
  obtain r w' where wr: "wait_and_report eks put ev ctx cn ?w1 = (r, w')"
    by (cases "wait_and_report eks put ev ctx cn ?w1")
  from wait_and_report_calls[OF wr] obtain zs where "calls w' = calls ?w1 @ zs" by auto
  then show ?thesis using assms Inr wr
    by (simp add: reconcile_def create_or_update_def invoke_def)
qed

text \<open>The definitions that a run of the handler on a given event unfolds.\<close>

lemmas run_cluster_handler =
  handler_def handler_body_def reconcile_def create_or_update_def update_cluster_def
  wait_and_report_def delete_and_report_def determine_cluster_name_def
  should_replace_cluster_def invoke_def start_def Let_def new_cluster_name_def cfn_send_def
  cfn_error_def str_or_def truthy_def event_physical_id_def old_config_of_def empty_config_def
  attributes_def and_then_def described_def cluster_event_def get_json_def opt_json_def
  version_error_def

subsection \<open>Replacement\<close>

text \<open>
  Claim C2, as the code has it. Take an update whose cluster name is its physical id \<open>p\<close>
  and whose \<open>resourcesVpcConfig\<close> or \<open>roleArn\<close> has changed. The new name is
  \<open>cluster-\<close> followed by the request id (not the old name with a token appended). If the
  client answers the calls, the handler describes the old cluster, creates a cluster of the
  new name with the new configuration, waits for it, describes it and puts one \<open>SUCCESS\<close>
  response whose physical id is the new name. Whatever the client does, an update makes no
  call that deletes a cluster.
\<close>

theorem replacement_creates_new_cluster:
  assumes env: "envelope ev url sid rid lid"
    and rt: "RequestType ev = Some ''Update''"
    and cfg: "Option.bind (ResourceProperties ev) Config = Some cfg"
    and pid: "PhysicalResourceId ev = Some p"
    and cn: "determine_cluster_name cfg (Some p) ''Update'' rid = Inr p"
    and changed: "\<not> py_eq (get_json (resourcesVpcConfig (old_config_of ev)))
                      (get_json (resourcesVpcConfig cfg))
                  \<or> roleArn (old_config_of ev) \<noteq> roleArn cfg"
    and eks: "answers eks []
                [Create_client, Describe_cluster (Some p),
                 Create_cluster (cfg\<lparr>name := Some (''cluster-'' @ rid)\<rparr>),
                 Wait_cluster_active (''cluster-'' @ rid) 30 26,
                 Describe_cluster (Some (''cluster-'' @ rid))]
                [client, resp, created, waited, resp']"
    and state: "subscript resp ''cluster'' = Inr current_state"
    and attrs: "attributes resp' = Inr attrs"
  shows "handler eks put ev ctx =
    (None,
     \<lparr>calls = [Create_client, Describe_cluster (Some p),
                Create_cluster (cfg\<lparr>name := Some (''cluster-'' @ rid)\<rparr>),
                Wait_cluster_active (''cluster-'' @ rid) 30 26,
                Describe_cluster (Some (''cluster-'' @ rid))],
        sent = [Put url
                 (responseBody CFN_SUCCESS (see_details ctx) (''cluster-'' @ rid) sid rid lid
                    False attrs)
                 (put url
                   (responseBody CFN_SUCCESS (see_details ctx) (''cluster-'' @ rid) sid rid lid
                      False attrs))]\<rparr>)
    \<and> \<not> list_ex is_delete (calls (snd (handler eks' put' ev ctx')))"
proof -
  have r: "should_replace_cluster (Some p) p (old_config_of ev)
             (get_json (resourcesVpcConfig cfg)) (roleArn cfg)"
    using changed by (auto simp: should_replace_iff)
  have b: "handler_body eks put ev ctx start =
    (None,
     \<lparr>calls = [Create_client, Describe_cluster (Some p),
                Create_cluster (cfg\<lparr>name := Some (''cluster-'' @ rid)\<rparr>),
                Wait_cluster_active (''cluster-'' @ rid) 30 26,
                Describe_cluster (Some (''cluster-'' @ rid))],
        sent = [Put url
                 (responseBody CFN_SUCCESS (see_details ctx) (''cluster-'' @ rid) sid rid lid
                    False attrs)
                 (put url
                   (responseBody CFN_SUCCESS (see_details ctx) (''cluster-'' @ rid) sid rid lid
                      False attrs))]\<rparr>)"
    using pid cn r eks state attrs
    by (simp add: handler_body_reads[OF env rt cfg] reconcile_def create_or_update_def
          update_cluster_def wait_and_report_def invoke_def start_def Let_def
          new_cluster_name_def cfn_send_envelope[OF env] str_or_def)
  show ?thesis
    using b handler_update_no_delete[OF rt, of eks' put' ctx'] by (simp add: handler_def)
qed

text \<open>
  The theorem at an update of the cluster \<open>web\<close> that adds a subnet, with a client that
  answers every call with the description of the new cluster.
\<close>

theorem replacement_creates_new_cluster_witness:
  "handler (\<lambda>h c. Inr (described ''cluster-req2'' ''1.21'')) (\<lambda>u b. None)
     (cluster_event ''Update'' ''req2'' (Some ''web'')
        \<lparr>name = None,
           resourcesVpcConfig = Some (JObj [(''subnetIds'', JList [JStr ''s1'', JStr ''s2''])]),
           roleArn = Some ''role'', version = None, other = []\<rparr>
        (Some \<lparr>name = None,
                 resourcesVpcConfig = Some (JObj [(''subnetIds'', JList [JStr ''s1''])]),
                 roleArn = Some ''role'', version = None, other = []\<rparr>))
     \<lparr>log_stream_name = ''log''\<rparr>
   = (None,
      \<lparr>calls = [Create_client, Describe_cluster (Some ''web''),
                 Create_cluster
                   \<lparr>name = Some ''cluster-req2'',
                      resourcesVpcConfig = Some (JObj [(''subnetIds'', JList [JStr ''s1'', JStr ''s2''])]),
                      roleArn = Some ''role'', version = None, other = []\<rparr>,
                 Wait_cluster_active ''cluster-req2'' 30 26,
                 Describe_cluster (Some ''cluster-req2'')],
         sent = [Put ''https://cloudformation.example/response''
                  (responseBody ''SUCCESS'' ''See the details in CloudWatch Log Stream: log''
                     ''cluster-req2'' ''arn:aws:cloudformation:stack/s'' ''req2'' ''Cluster'' False
                     (JObj [(''Name'', JStr ''cluster-req2''),
                            (''Endpoint'', JStr ''https://eks.example''),
                            (''Arn'', JStr ''arn:aws:eks:cluster/cluster-req2''),
                            (''CertificateAuthorityData'', JStr ''LS0t'')]))
                  None]\<rparr>)"
proof -
  let ?cfg = "\<lparr>name = None,
           resourcesVpcConfig = Some (JObj [(''subnetIds'', JList [JStr ''s1'', JStr ''s2''])]),
           roleArn = Some ''role'', version = None, other = []\<rparr>"
  let ?old = "\<lparr>name = None,
                 resourcesVpcConfig = Some (JObj [(''subnetIds'', JList [JStr ''s1''])]),
                 roleArn = Some ''role'', version = None, other = []\<rparr>"
  let ?ev = "cluster_event ''Update'' ''req2'' (Some ''web'') ?cfg (Some ?old)"
  let ?d = "described ''cluster-req2'' ''1.21''"
  let ?eks = "\<lambda>(h :: eks_call list) (c :: eks_call). (Inr ?d :: exn + json)"
  have env: "envelope ?ev ''https://cloudformation.example/response''
               ''arn:aws:cloudformation:stack/s'' ''req2'' ''Cluster''"
    by (simp add: envelope_def cluster_event_def)
  have rt: "RequestType ?ev = Some ''Update''" by (simp add: cluster_event_def)
  have cfg: "Option.bind (ResourceProperties ?ev) Config = Some ?cfg"
    by (simp add: cluster_event_def)
  have pid: "PhysicalResourceId ?ev = Some ''web''" by (simp add: cluster_event_def)
  have cn: "determine_cluster_name ?cfg (Some ''web'') ''Update'' ''req2'' = Inr ''web''"
    by (simp add: determine_cluster_name_def truthy_def str_or_def)
  have changed: "\<not> py_eq (get_json (resourcesVpcConfig (old_config_of ?ev)))
                      (get_json (resourcesVpcConfig ?cfg))
                  \<or> roleArn (old_config_of ?ev) \<noteq> roleArn ?cfg"
    by (simp add: cluster_event_def old_config_of_def get_json_def)
  have eks: "answers ?eks []
                [Create_client, Describe_cluster (Some ''web''),
                 Create_cluster (?cfg\<lparr>name := Some (''cluster-'' @ ''req2'')\<rparr>),
                 Wait_cluster_active (''cluster-'' @ ''req2'') 30 26,
                 Describe_cluster (Some (''cluster-'' @ ''req2''))]
                [?d, ?d, ?d, ?d, ?d]"
    by simp
  have state: "subscript ?d ''cluster''
               = Inr (JObj [(''name'', JStr ''cluster-req2''),
                  (''arn'', JStr ''arn:aws:eks:cluster/cluster-req2''),
                  (''version'', JStr ''1.21''), (''endpoint'', JStr ''https://eks.example''),
                  (''certificateAuthority'', JObj [(''data'', JStr ''LS0t'')])])"
    by (simp add: described_def)
  have attrs: "attributes ?d = Inr (JObj [(''Name'', JStr ''cluster-req2''),
                            (''Endpoint'', JStr ''https://eks.example''),
                            (''Arn'', JStr ''arn:aws:eks:cluster/cluster-req2''),
                            (''CertificateAuthorityData'', JStr ''LS0t'')])"
    by (simp add: attributes_def and_then_def described_def)
  show ?thesis
    using replacement_creates_new_cluster[OF env rt cfg pid cn changed eks state attrs,
        of "\<lambda>u b. None" "\<lparr>log_stream_name = ''log''\<rparr>"]
    by (simp add: CFN_SUCCESS_def see_details_def)
qed

text \<open>
  Claim C2 as the specification states it fails: the update below changes \<open>roleArn\<close> of
  the cluster \<open>prod\<close>, and the cluster created, and reported as the physical id, is
  \<open>cluster-req1\<close>, which does not start with \<open>prod-\<close>.
\<close>

theorem replacement_name_counterexample:
  "handler (\<lambda>h c. Inr (described ''cluster-req1'' ''1.21'')) (\<lambda>u b. None)
     (cluster_event ''Update'' ''req1'' (Some ''prod'')
        \<lparr>name = Some ''prod'', resourcesVpcConfig = None, roleArn = Some ''role-b'',
           version = None, other = []\<rparr>
        (Some \<lparr>name = Some ''prod'', resourcesVpcConfig = None, roleArn = Some ''role-a'',
                 version = None, other = []\<rparr>))
     \<lparr>log_stream_name = ''log''\<rparr>
   = (None,
      \<lparr>calls = [Create_client, Describe_cluster (Some ''prod''),
                 Create_cluster
                   \<lparr>name = Some ''cluster-req1'', resourcesVpcConfig = None,
                      roleArn = Some ''role-b'', version = None, other = []\<rparr>,
                 Wait_cluster_active ''cluster-req1'' 30 26,
                 Describe_cluster (Some ''cluster-req1'')],
         sent = [Put ''https://cloudformation.example/response''
                  (responseBody ''SUCCESS'' ''See the details in CloudWatch Log Stream: log''
                     ''cluster-req1'' ''arn:aws:cloudformation:stack/s'' ''req1'' ''Cluster'' False
                     (JObj [(''Name'', JStr ''cluster-req1''),
                            (''Endpoint'', JStr ''https://eks.example''),
                            (''Arn'', JStr ''arn:aws:eks:cluster/cluster-req1''),
                            (''CertificateAuthorityData'', JStr ''LS0t'')]))
                  None]\<rparr>)
   \<and> take 5 ''cluster-req1'' \<noteq> ''prod-''"
  by (simp add: run_cluster_handler CFN_SUCCESS_def see_details_def)

subsection \<open>The version\<close>

text \<open>
  Claim C5. Take an update that needs no replacement, whose old configuration names a
  version and whose new one names none, for a cluster that \<open>describe_cluster\<close> reports with
  a version. The handler makes no call after that description (no update, no create) and
  puts one \<open>FAILED\<close> response, whose reason says that the version cannot be changed to
  undefined and whose physical id is the one of the request.
\<close>

theorem unset_version_rejected:
  assumes env: "envelope ev url sid rid lid"
    and rt: "RequestType ev = Some ''Update''"
    and cfg: "Option.bind (ResourceProperties ev) Config = Some cfg"
    and cn: "determine_cluster_name cfg (PhysicalResourceId ev) ''Update'' rid = Inr cn"
    and keep: "\<not> should_replace_cluster (PhysicalResourceId ev) cn (old_config_of ev)
                 (get_json (resourcesVpcConfig cfg)) (roleArn cfg)"
    and old: "version (old_config_of ev) = Some old_version"
    and new: "version cfg = None"
    and eks: "answers eks [] [Create_client, Describe_cluster (PhysicalResourceId ev)] [client, resp]"
    and state: "subscript resp ''cluster'' = Inr current_state"
    and actual: "subscript current_state ''version'' = Inr old_version_actual"
    and differs: "old_version_actual \<noteq> JNull"
  shows "handler eks put ev ctx =
    (None,
     \<lparr>calls = [Create_client, Describe_cluster (PhysicalResourceId ev)],
        sent = [Put url
                 (responseBody CFN_FAILED
                    (''Version cannot be changed from a specific value ('' @ old_version
                     @ '') to undefined'')
                    cn sid rid lid False (JObj []))
                 (put url
                   (responseBody CFN_FAILED
                      (''Version cannot be changed from a specific value ('' @ old_version
                       @ '') to undefined'')
                      cn sid rid lid False (JObj [])))]\<rparr>)
    \<and> PhysicalResourceId ev = Some cn"
proof -
  have p: "PhysicalResourceId ev = Some cn" using keep by (rule not_replaced_physical_id)
  have b: "handler_body eks put ev ctx start
        = (Some (version_error (Some old_version)),
           \<lparr>calls = [Create_client, Describe_cluster (PhysicalResourceId ev)], sent = []\<rparr>)"
    using cn keep old new eks state actual differs
    by (simp add: handler_body_reads[OF env rt cfg] reconcile_def create_or_update_def
          update_cluster_def invoke_def start_def Let_def opt_json_def py_eq_JNull)
  show ?thesis
    using p b
    by (simp add: handler_def cfn_error_def cfn_send_envelope[OF env] version_error_def
          str_or_def event_physical_id_def)
qed

text \<open>The theorem at an update that drops the version 1.20 of the cluster \<open>prod\<close>.\<close>

theorem unset_version_rejected_witness:
  "handler (\<lambda>h c. Inr (described ''prod'' ''1.20'')) (\<lambda>u b. None)
     (cluster_event ''Update'' ''req7'' (Some ''prod'')
        \<lparr>name = Some ''prod'', resourcesVpcConfig = None, roleArn = Some ''role'',
           version = None, other = []\<rparr>
        (Some \<lparr>name = Some ''prod'', resourcesVpcConfig = None, roleArn = Some ''role'',
                 version = Some ''1.20'', other = []\<rparr>))
     \<lparr>log_stream_name = ''log''\<rparr>
   = (None,
      \<lparr>calls = [Create_client, Describe_cluster (Some ''prod'')],
         sent = [Put ''https://cloudformation.example/response''
                  (responseBody ''FAILED''
                     ''Version cannot be changed from a specific value (1.20) to undefined''
                     ''prod'' ''arn:aws:cloudformation:stack/s'' ''req7'' ''Cluster'' False
                     (JObj []))
                  None]\<rparr>)"
proof -
  let ?cfg = "\<lparr>name = Some ''prod'', resourcesVpcConfig = None, roleArn = Some ''role'',
                 version = None, other = []\<rparr>"
  let ?old = "\<lparr>name = Some ''prod'', resourcesVpcConfig = None, roleArn = Some ''role'',
                 version = Some ''1.20'', other = []\<rparr>"
  let ?ev = "cluster_event ''Update'' ''req7'' (Some ''prod'') ?cfg (Some ?old)"
  let ?eks = "\<lambda>(h :: eks_call list) (c :: eks_call). (Inr (described ''prod'' ''1.20'') :: exn + json)"
  have env: "envelope ?ev ''https://cloudformation.example/response''
               ''arn:aws:cloudformation:stack/s'' ''req7'' ''Cluster''"
    by (simp add: envelope_def cluster_event_def)
  have rt: "RequestType ?ev = Some ''Update''" by (simp add: cluster_event_def)
  have cfg: "Option.bind (ResourceProperties ?ev) Config = Some ?cfg"
    by (simp add: cluster_event_def)
  have cn: "determine_cluster_name ?cfg (PhysicalResourceId ?ev) ''Update'' ''req7'' = Inr ''prod''"
    by (simp add: determine_cluster_name_def)
  have keep: "\<not> should_replace_cluster (PhysicalResourceId ?ev) ''prod'' (old_config_of ?ev)
                 (get_json (resourcesVpcConfig ?cfg)) (roleArn ?cfg)"
    by (simp add: should_replace_cluster_def cluster_event_def old_config_of_def get_json_def)
  have old: "version (old_config_of ?ev) = Some ''1.20''"
    by (simp add: cluster_event_def old_config_of_def)
  have new: "version ?cfg = None" by simp
  have eks: "answers ?eks [] [Create_client, Describe_cluster (PhysicalResourceId ?ev)]
               [described ''prod'' ''1.20'', described ''prod'' ''1.20'']"
    by simp
  have state: "subscript (described ''prod'' ''1.20'') ''cluster''
               = Inr (JObj [(''name'', JStr ''prod''), (''arn'', JStr ''arn:aws:eks:cluster/prod''),
                  (''version'', JStr ''1.20''), (''endpoint'', JStr ''https://eks.example''),
                  (''certificateAuthority'', JObj [(''data'', JStr ''LS0t'')])])"
    by (simp add: described_def)
  have actual: "subscript (JObj [(''name'', JStr ''prod''), (''arn'', JStr ''arn:aws:eks:cluster/prod''),
                  (''version'', JStr ''1.20''), (''endpoint'', JStr ''https://eks.example''),
                  (''certificateAuthority'', JObj [(''data'', JStr ''LS0t'')])]) ''version''
                = Inr (JStr ''1.20'')"
    by simp
  have differs: "JStr ''1.20'' \<noteq> JNull" by simp
  show ?thesis
    using unset_version_rejected[OF env rt cfg cn keep old new eks state actual differs,
        of "\<lambda>u b. None" "\<lparr>log_stream_name = ''log''\<rparr>"]
    by (simp add: CFN_FAILED_def cluster_event_def)
qed

text \<open>
  Claim C7, as the code has it. Take an update that needs no replacement. Whatever the
  client does, no cluster is created, and no version is updated when neither configuration
  names one. The new version is compared with the version that \<open>describe_cluster\<close>
  reports, not with the one of the old configuration: when the new configuration names a
  version that differs from the reported one, the handler updates the version (and nothing
  else), waits, describes and puts one \<open>SUCCESS\<close> response with the physical id of the
  request; when neither configuration names a version, or the new one equals the reported
  one, it does the same without the update.
\<close>

theorem version_update_in_place:
  assumes env: "envelope ev url sid rid lid"
    and rt: "RequestType ev = Some ''Update''"
    and cfg: "Option.bind (ResourceProperties ev) Config = Some cfg"
    and cn: "determine_cluster_name cfg (PhysicalResourceId ev) ''Update'' rid = Inr cn"
    and keep: "\<not> should_replace_cluster (PhysicalResourceId ev) cn (old_config_of ev)
                 (get_json (resourcesVpcConfig cfg)) (roleArn cfg)"
  shows "\<not> list_ex is_create (calls (snd (handler eks put ev ctx)))
    \<and> (version (old_config_of ev) = None \<and> version cfg = None
        \<longrightarrow> \<not> list_ex is_update (calls (snd (handler eks put ev ctx))))
    \<and> (version cfg = Some v
        \<and> answers eks []
             [Create_client, Describe_cluster (Some cn), Update_cluster_version cn v,
              Wait_cluster_active cn 30 26, Describe_cluster (Some cn)]
             [client, resp, updated, waited, resp']
        \<and> subscript resp ''cluster'' = Inr current_state
        \<and> subscript current_state ''version'' = Inr old_version_actual
        \<and> \<not> py_eq (JStr v) old_version_actual
        \<and> attributes resp' = Inr attrs
        \<longrightarrow> handler eks put ev ctx =
             (None,
              \<lparr>calls = [Create_client, Describe_cluster (Some cn), Update_cluster_version cn v,
                         Wait_cluster_active cn 30 26, Describe_cluster (Some cn)],
                 sent = [Put url
                          (responseBody CFN_SUCCESS (see_details ctx) cn sid rid lid False attrs)
                          (put url
                            (responseBody CFN_SUCCESS (see_details ctx) cn sid rid lid False
                               attrs))]\<rparr>))
    \<and> (answers eks []
             [Create_client, Describe_cluster (Some cn), Wait_cluster_active cn 30 26,
              Describe_cluster (Some cn)]
             [client, resp, waited, resp']
        \<and> subscript resp ''cluster'' = Inr current_state
        \<and> (version (old_config_of ev) = None \<and> version cfg = None
            \<or> subscript current_state ''version'' = Inr old_version_actual
              \<and> py_eq (opt_json (version cfg)) old_version_actual)
        \<and> attributes resp' = Inr attrs
        \<longrightarrow> handler eks put ev ctx =
             (None,
              \<lparr>calls = [Create_client, Describe_cluster (Some cn), Wait_cluster_active cn 30 26,
                         Describe_cluster (Some cn)],
                 sent = [Put url
                          (responseBody CFN_SUCCESS (see_details ctx) cn sid rid lid False attrs)
                          (put url
                            (responseBody CFN_SUCCESS (see_details ctx) cn sid rid lid False
                               attrs))]\<rparr>))"
proof -
  have p: "PhysicalResourceId ev = Some cn" using keep by (rule not_replaced_physical_id)
  have t: "\<not> list_ex is_create (calls (snd (handler eks put ev ctx)))
    \<and> (version (old_config_of ev) = None \<and> version cfg = None
        \<longrightarrow> \<not> list_ex is_update (calls (snd (handler eks put ev ctx))))"
    using handler_update_trace[OF env rt cfg, of cn eks put ctx] cn keep by blast
  have s: "str_or (Some cn) (event_physical_id ev ctx) = cn" "str_or None (see_details ctx) = see_details ctx"
    using p by (simp_all add: str_or_def event_physical_id_def)
  have u: "version cfg = Some v
        \<and> answers eks []
             [Create_client, Describe_cluster (Some cn), Update_cluster_version cn v,
              Wait_cluster_active cn 30 26, Describe_cluster (Some cn)]
             [client, resp, updated, waited, resp']
        \<and> subscript resp ''cluster'' = Inr current_state
        \<and> subscript current_state ''version'' = Inr old_version_actual
        \<and> \<not> py_eq (JStr v) old_version_actual
        \<and> attributes resp' = Inr attrs
        \<longrightarrow> handler eks put ev ctx =
             (None,
              \<lparr>calls = [Create_client, Describe_cluster (Some cn), Update_cluster_version cn v,
                         Wait_cluster_active cn 30 26, Describe_cluster (Some cn)],
                 sent = [Put url
                          (responseBody CFN_SUCCESS (see_details ctx) cn sid rid lid False attrs)
                          (put url
                            (responseBody CFN_SUCCESS (see_details ctx) cn sid rid lid False
                               attrs))]\<rparr>)"
    using cn keep p s
    by (simp add: handler_def handler_body_reads[OF env rt cfg] reconcile_def
          create_or_update_def update_cluster_def wait_and_report_def invoke_def start_def
          Let_def cfn_send_envelope[OF env] opt_json_def)
  have n: "answers eks []
             [Create_client, Describe_cluster (Some cn), Wait_cluster_active cn 30 26,
              Describe_cluster (Some cn)]
             [client, resp, waited, resp']
        \<and> subscript resp ''cluster'' = Inr current_state
        \<and> (version (old_config_of ev) = None \<and> version cfg = None
            \<or> subscript current_state ''version'' = Inr old_version_actual
              \<and> py_eq (opt_json (version cfg)) old_version_actual)
        \<and> attributes resp' = Inr attrs
        \<longrightarrow> handler eks put ev ctx =
             (None,
              \<lparr>calls = [Create_client, Describe_cluster (Some cn), Wait_cluster_active cn 30 26,
                         Describe_cluster (Some cn)],
                 sent = [Put url
                          (responseBody CFN_SUCCESS (see_details ctx) cn sid rid lid False attrs)
                          (put url
                            (responseBody CFN_SUCCESS (see_details ctx) cn sid rid lid False
                               attrs))]\<rparr>)"
    using cn keep p s
    by (auto simp: handler_def handler_body_reads[OF env rt cfg] reconcile_def
          create_or_update_def update_cluster_def wait_and_report_def invoke_def start_def
          Let_def cfn_send_envelope[OF env])
  show ?thesis using t u n by blast
qed

text \<open>The theorem at an update of the cluster \<open>prod\<close> from version 1.20 to 1.21.\<close>

theorem version_update_in_place_witness:
  "handler (\<lambda>h c. Inr (described ''prod'' ''1.20'')) (\<lambda>u b. None)
     (cluster_event ''Update'' ''req3'' (Some ''prod'')
        \<lparr>name = Some ''prod'', resourcesVpcConfig = None, roleArn = Some ''role'',
           version = Some ''1.21'', other = []\<rparr>
        (Some \<lparr>name = Some ''prod'', resourcesVpcConfig = None, roleArn = Some ''role'',
                 version = Some ''1.20'', other = []\<rparr>))
     \<lparr>log_stream_name = ''log''\<rparr>
   = (None,
      \<lparr>calls = [Create_client, Describe_cluster (Some ''prod''),
                 Update_cluster_version ''prod'' ''1.21'',
                 Wait_cluster_active ''prod'' 30 26, Describe_cluster (Some ''prod'')],
         sent = [Put ''https://cloudformation.example/response''
                  (responseBody ''SUCCESS'' ''See the details in CloudWatch Log Stream: log''
                     ''prod'' ''arn:aws:cloudformation:stack/s'' ''req3'' ''Cluster'' False
                     (JObj [(''Name'', JStr ''prod''),
                            (''Endpoint'', JStr ''https://eks.example''),
                            (''Arn'', JStr ''arn:aws:eks:cluster/prod''),
                            (''CertificateAuthorityData'', JStr ''LS0t'')]))
                  None]\<rparr>)
   \<and> \<not> list_ex is_create
        (calls (snd (handler (\<lambda>h c. Inr (described ''prod'' ''1.20'')) (\<lambda>u b. None)
          (cluster_event ''Update'' ''req3'' (Some ''prod'')
             \<lparr>name = Some ''prod'', resourcesVpcConfig = None, roleArn = Some ''role'',
                version = Some ''1.21'', other = []\<rparr>
             (Some \<lparr>name = Some ''prod'', resourcesVpcConfig = None, roleArn = Some ''role'',
                      version = Some ''1.20'', other = []\<rparr>))
          \<lparr>log_stream_name = ''log''\<rparr>)))"
proof -
  let ?cfg = "\<lparr>name = Some ''prod'', resourcesVpcConfig = None, roleArn = Some ''role'',
                 version = Some ''1.21'', other = []\<rparr>"
  let ?old = "\<lparr>name = Some ''prod'', resourcesVpcConfig = None, roleArn = Some ''role'',
                 version = Some ''1.20'', other = []\<rparr>"
  let ?ev = "cluster_event ''Update'' ''req3'' (Some ''prod'') ?cfg (Some ?old)"
  let ?d = "described ''prod'' ''1.20''"
  let ?cs = "JObj [(''name'', JStr ''prod''), (''arn'', JStr ''arn:aws:eks:cluster/prod''),
                  (''version'', JStr ''1.20''), (''endpoint'', JStr ''https://eks.example''),
                  (''certificateAuthority'', JObj [(''data'', JStr ''LS0t'')])]"
  let ?attrs = "JObj [(''Name'', JStr ''prod''), (''Endpoint'', JStr ''https://eks.example''),
                      (''Arn'', JStr ''arn:aws:eks:cluster/prod''),
                      (''CertificateAuthorityData'', JStr ''LS0t'')]"
  let ?eks = "\<lambda>(h :: eks_call list) (c :: eks_call). (Inr ?d :: exn + json)"
  have env: "envelope ?ev ''https://cloudformation.example/response''
               ''arn:aws:cloudformation:stack/s'' ''req3'' ''Cluster''"
    by (simp add: envelope_def cluster_event_def)
  have rt: "RequestType ?ev = Some ''Update''" by (simp add: cluster_event_def)
  have cfg: "Option.bind (ResourceProperties ?ev) Config = Some ?cfg"
    by (simp add: cluster_event_def)
  have cn: "determine_cluster_name ?cfg (PhysicalResourceId ?ev) ''Update'' ''req3'' = Inr ''prod''"
    by (simp add: determine_cluster_name_def)
  have keep: "\<not> should_replace_cluster (PhysicalResourceId ?ev) ''prod'' (old_config_of ?ev)
                 (get_json (resourcesVpcConfig ?cfg)) (roleArn ?cfg)"
    by (simp add: should_replace_cluster_def cluster_event_def old_config_of_def get_json_def)
  have h: "version ?cfg = Some ''1.21''
        \<and> answers ?eks []
             [Create_client, Describe_cluster (Some ''prod''), Update_cluster_version ''prod'' ''1.21'',
              Wait_cluster_active ''prod'' 30 26, Describe_cluster (Some ''prod'')]
             [?d, ?d, ?d, ?d, ?d]
        \<and> subscript ?d ''cluster'' = Inr ?cs
        \<and> subscript ?cs ''version'' = Inr (JStr ''1.20'')
        \<and> \<not> py_eq (JStr ''1.21'') (JStr ''1.20'')
        \<and> attributes ?d = Inr ?attrs"
    by (simp add: described_def attributes_def and_then_def)
  show ?thesis
    using h version_update_in_place[OF env rt cfg cn keep,
        of ?eks "\<lambda>u b. None" "\<lparr>log_stream_name = ''log''\<rparr>" "''1.21''" ?d ?d ?d ?d ?d
           ?cs "JStr ''1.20''" ?attrs]
    by (simp add: CFN_SUCCESS_def see_details_def)
qed

text \<open>
  Claim C7 as the specification states it fails in its last part: the old and the new
  configuration below are the same, so no field has changed, and the handler still updates
  the version, since the cluster reports 1.20 and the configuration says 1.21.
\<close>

theorem unchanged_version_update_counterexample:
  "old_config_of
     (cluster_event ''Update'' ''req4'' (Some ''prod'')
        \<lparr>name = Some ''prod'', resourcesVpcConfig = None, roleArn = Some ''role'',
           version = Some ''1.21'', other = []\<rparr>
        (Some \<lparr>name = Some ''prod'', resourcesVpcConfig = None, roleArn = Some ''role'',
                 version = Some ''1.21'', other = []\<rparr>))
   = \<lparr>name = Some ''prod'', resourcesVpcConfig = None, roleArn = Some ''role'',
        version = Some ''1.21'', other = []\<rparr>
   \<and> calls (snd (handler (\<lambda>h c. Inr (described ''prod'' ''1.20'')) (\<lambda>u b. None)
       (cluster_event ''Update'' ''req4'' (Some ''prod'')
          \<lparr>name = Some ''prod'', resourcesVpcConfig = None, roleArn = Some ''role'',
             version = Some ''1.21'', other = []\<rparr>
          (Some \<lparr>name = Some ''prod'', resourcesVpcConfig = None, roleArn = Some ''role'',
                   version = Some ''1.21'', other = []\<rparr>))
       \<lparr>log_stream_name = ''log''\<rparr>))
     = [Create_client, Describe_cluster (Some ''prod''),
        Update_cluster_version ''prod'' ''1.21'',
        Wait_cluster_active ''prod'' 30 26, Describe_cluster (Some ''prod'')]"
  by (simp add: run_cluster_handler)

subsection \<open>The name of a new cluster\<close>

text \<open>
  Claim C9. For a create without a name in the configuration and without a physical id,
  the cluster name is \<open>cluster-\<close> followed by the request id: two such requests with the
  same request id get the same name, whatever else they contain, and the handler creates the
  cluster under that name.
\<close>

theorem create_name_from_request_id:
  "(name cfg = None \<and> \<not> truthy pid \<longrightarrow>
      determine_cluster_name cfg pid ''Create'' rid = Inr (new_cluster_name rid)
      \<and> new_cluster_name rid = ''cluster-'' @ rid)
   \<and> (name cfg = None \<and> \<not> truthy pid \<and> name cfg' = None \<and> \<not> truthy pid' \<longrightarrow>
      determine_cluster_name cfg pid ''Create'' rid
      = determine_cluster_name cfg' pid' ''Create'' rid)
   \<and> (envelope ev url sid rid lid \<and> RequestType ev = Some ''Create''
       \<and> Option.bind (ResourceProperties ev) Config = Some cfg \<and> name cfg = None
       \<and> \<not> truthy (PhysicalResourceId ev) \<and> eks [] Create_client = Inr client \<longrightarrow>
      take 2 (calls (snd (handler eks put ev ctx)))
      = [Create_client, Create_cluster (cfg\<lparr>name := Some (''cluster-'' @ rid)\<rparr>)])"
proof (intro conjI impI)
  assume "name cfg = None \<and> \<not> truthy pid"
  then show "determine_cluster_name cfg pid ''Create'' rid = Inr (new_cluster_name rid)"
    by (simp add: determine_cluster_name_def)
next
  show "new_cluster_name rid = ''cluster-'' @ rid" by (simp add: new_cluster_name_def)
next
  assume "name cfg = None \<and> \<not> truthy pid \<and> name cfg' = None \<and> \<not> truthy pid'"
  then show "determine_cluster_name cfg pid ''Create'' rid
      = determine_cluster_name cfg' pid' ''Create'' rid"
    by (simp add: determine_cluster_name_def)
next
  assume a: "envelope ev url sid rid lid \<and> RequestType ev = Some ''Create''
       \<and> Option.bind (ResourceProperties ev) Config = Some cfg \<and> name cfg = None
       \<and> \<not> truthy (PhysicalResourceId ev) \<and> eks [] Create_client = Inr client"
  then have d: "determine_cluster_name cfg (PhysicalResourceId ev) ''Create'' rid
                = Inr (''cluster-'' @ rid)"
    by (simp add: determine_cluster_name_def new_cluster_name_def)
  have c: "eks (calls (start :: eks_call world)) Create_client = Inr client"
    using a by (simp add: start_def)
  from reconcile_create_calls[where w = "start :: eks_call world" and eks = eks and put = put
      and ev = ev and ctx = ctx and old = "old_config_of ev", OF c d] a
  show "take 2 (calls (snd (handler eks put ev ctx)))
      = [Create_client, Create_cluster (cfg\<lparr>name := Some (''cluster-'' @ rid)\<rparr>)]"
    by (auto simp: handler_calls handler_body_reads start_def)
qed

text \<open>The theorem at two creates with the request id \<open>req9\<close>.\<close>

theorem create_name_from_request_id_witness:
  "determine_cluster_name
     \<lparr>name = None, resourcesVpcConfig = None, roleArn = Some ''role'', version = None, other = []\<rparr>
     None ''Create'' ''req9'' = Inr ''cluster-req9''
   \<and> determine_cluster_name
       \<lparr>name = None, resourcesVpcConfig = None, roleArn = Some ''role'', version = None, other = []\<rparr>
       None ''Create'' ''req9''
     = determine_cluster_name
       \<lparr>name = None, resourcesVpcConfig = None, roleArn = Some ''other'', version = Some ''1.21'',
          other = []\<rparr>
       (Some []) ''Create'' ''req9''
   \<and> take 2 (calls (snd (handler (\<lambda>h c. Inr (described ''cluster-req9'' ''1.21'')) (\<lambda>u b. None)
       (cluster_event ''Create'' ''req9'' None
          \<lparr>name = None, resourcesVpcConfig = None, roleArn = Some ''role'', version = None,
             other = []\<rparr> None)
       \<lparr>log_stream_name = ''log''\<rparr>)))
     = [Create_client,
        Create_cluster \<lparr>name = Some ''cluster-req9'', resourcesVpcConfig = None,
                         roleArn = Some ''role'', version = None, other = []\<rparr>]"
proof -
  let ?cfg = "\<lparr>name = None, resourcesVpcConfig = None, roleArn = Some ''role'', version = None,
                 other = []\<rparr>"
  let ?cfg' = "\<lparr>name = None, resourcesVpcConfig = None, roleArn = Some ''other'',
                  version = Some ''1.21'', other = []\<rparr>"
  let ?ev = "cluster_event ''Create'' ''req9'' None ?cfg None"
  let ?eks = "\<lambda>(h :: eks_call list) (c :: eks_call).
                (Inr (described ''cluster-req9'' ''1.21'') :: exn + json)"
  have a: "name ?cfg = None \<and> \<not> truthy None" by (simp add: truthy_def)
  have b: "name ?cfg = None \<and> \<not> truthy None \<and> name ?cfg' = None \<and> \<not> truthy (Some [])"
    by (simp add: truthy_def)
  have c: "envelope ?ev ''https://cloudformation.example/response''
               ''arn:aws:cloudformation:stack/s'' ''req9'' ''Cluster''
       \<and> RequestType ?ev = Some ''Create''
       \<and> Option.bind (ResourceProperties ?ev) Config = Some ?cfg \<and> name ?cfg = None
       \<and> \<not> truthy (PhysicalResourceId ?ev)
       \<and> ?eks [] Create_client = Inr (described ''cluster-req9'' ''1.21'')"
    by (simp add: envelope_def cluster_event_def truthy_def)
  show ?thesis
    using a b c
      create_name_from_request_id[of ?cfg None "''req9''" ?cfg' "Some []" ?ev
        "''https://cloudformation.example/response''" "''arn:aws:cloudformation:stack/s''"
        "''Cluster''" ?eks "described ''cluster-req9'' ''1.21''" "\<lambda>u b. None"
        "\<lparr>log_stream_name = ''log''\<rparr>"]
    by (auto simp: new_cluster_name_def)
qed


section \<open>Deletes and failures\<close>

text \<open>The definitions that a run of the helm chart handler on a given event unfolds.\<close>

lemmas run_helm_chart_handler =
  helm_chart_handler_def helm_chart_handler_body_def helm_chart_run_def helm_chart_values_def
  helm_chart_helm_def helm_chart_cmnd_def helm_chart_cfn_send_def helm_chart_cfn_error_def
  opt_args_def kubeconfig_def path_join_def invoke_def start_def Let_def str_or_def truthy_def
  chart_event_def

text \<open>The command of a delete is one run of \<open>helm uninstall\<close>, and it never raises.\<close>

lemma helm_chart_delete_run:
  "helm_chart_run os ''Delete'' release chart repo vf ns ver w
   = (None, w\<lparr>calls := calls w @ [helm_chart_cmnd os ''uninstall'' release None None None ns None]\<rparr>)"
  by (simp add: helm_chart_run_def helm_chart_helm_def invoke_def split: completed.splits)

lemma helm_chart_body_reads:
  assumes "RequestType ev = Some rt" "ResourceProperties ev = Some props"
    "Release props = Some release" "Chart props = Some chart"
    "CLUSTER_NAME os = Some cluster_name"
    "check_call os [''aws'', ''eks'', ''update-kubeconfig'', ''--name'', cluster_name,
                    ''--kubeconfig'', kubeconfig os] = None"
    "helm_chart_values os rt (Values props) = Inr vf"
    "helm_chart_run os rt release chart (Repository props) vf (Namespace props) (Version props) w
     = (None, w1)"
  shows "helm_chart_handler_body os put ev ctx w =
     (if rt = ''Create'' then
        helm_chart_cfn_send put ev ctx CFN_SUCCESS (JObj [])
          (Some (cluster_name @ ''/'' @ uuid4 os)) False None w1
      else if \<not> truthy (PhysicalResourceId ev) then
        helm_chart_cfn_error put ev ctx (Some (undefined_physical_id rt)) w1
      else
        helm_chart_cfn_send put ev ctx CFN_SUCCESS (JObj []) (PhysicalResourceId ev) False None w1)"
  using assms by (simp add: helm_chart_handler_body_def Let_def)

lemma helm_chart_values_delete: "helm_chart_values os ''Delete'' t = Inr None"
  by (simp add: helm_chart_values_def split: option.splits)

text \<open>
  Claim C10. Take a request to the helm chart handler that has \<open>Release\<close> and \<open>Chart\<close>,
  with \<open>CLUSTER_NAME\<close> set and the kubeconfig updated, so that the handler reaches its
  command. A delete with a physical id runs \<open>helm uninstall\<close> once and puts one
  \<open>SUCCESS\<close> response with that physical id, whatever the command does (it may return,
  fail with any output, or not start at all). A delete without a physical id, and an update
  without one whose upgrade has returned, put one \<open>FAILED\<close> response whose reason is the
  "invalid request" message.
\<close>

theorem uninstall_errors_swallowed:
  assumes env: "envelope ev url sid rid lid"
    and props: "ResourceProperties ev = Some props"
    and release: "Release props = Some release"
    and chart: "Chart props = Some chart"
    and cluster: "CLUSTER_NAME os = Some cluster_name"
    and kube: "check_call os [''aws'', ''eks'', ''update-kubeconfig'', ''--name'', cluster_name,
                              ''--kubeconfig'', kubeconfig os] = None"
    and uninstall: "uninstall = helm_chart_cmnd os ''uninstall'' release None None None
                                  (Namespace props) None"
    and upgrade: "upgrade = helm_chart_cmnd os ''upgrade'' release (Some chart)
                              (Repository props) vf (Namespace props) (Version props)"
  shows "(RequestType ev = Some ''Delete'' \<and> PhysicalResourceId ev = Some p \<and> p \<noteq> [] \<longrightarrow>
       helm_chart_handler os put ev ctx =
         (None,
          \<lparr>calls = [uninstall],
             sent = [Put url
                      (responseBody CFN_SUCCESS (see_details ctx) p sid rid lid False (JObj []))
                      (put url
                        (responseBody CFN_SUCCESS (see_details ctx) p sid rid lid False
                           (JObj [])))]\<rparr>))
    \<and> (RequestType ev = Some ''Delete'' \<and> \<not> truthy (PhysicalResourceId ev) \<longrightarrow>
       helm_chart_handler os put ev ctx =
         (None,
          \<lparr>calls = [uninstall],
             sent = [Put url
                      (responseBody CFN_FAILED (undefined_physical_id ''Delete'')
                         (log_stream_name ctx) sid rid lid False (JObj []))
                      (put url
                        (responseBody CFN_FAILED (undefined_physical_id ''Delete'')
                           (log_stream_name ctx) sid rid lid False (JObj [])))]\<rparr>))
    \<and> (RequestType ev = Some ''Update'' \<and> \<not> truthy (PhysicalResourceId ev)
        \<and> helm_chart_values os ''Update'' (Values props) = Inr vf
        \<and> check_output os [] upgrade = Output out \<longrightarrow>
       helm_chart_handler os put ev ctx =
         (None,
          \<lparr>calls = [upgrade],
             sent = [Put url
                      (responseBody CFN_FAILED (undefined_physical_id ''Update'')
                         (log_stream_name ctx) sid rid lid False (JObj []))
                      (put url
                        (responseBody CFN_FAILED (undefined_physical_id ''Update'')
                           (log_stream_name ctx) sid rid lid False (JObj [])))]\<rparr>))
    \<and> take 15 (undefined_physical_id rt) = ''invalid request''"
proof -
  have d: "helm_chart_handler_body os put ev ctx start =
     (if \<not> truthy (PhysicalResourceId ev) then
        helm_chart_cfn_error put ev ctx (Some (undefined_physical_id ''Delete''))
          (start\<lparr>calls := calls start @ [uninstall]\<rparr>)
      else
        helm_chart_cfn_send put ev ctx CFN_SUCCESS (JObj []) (PhysicalResourceId ev) False None
          (start\<lparr>calls := calls start @ [uninstall]\<rparr>))"
    if "RequestType ev = Some ''Delete''"
    using helm_chart_body_reads[OF that props release chart cluster kube
        helm_chart_values_delete helm_chart_delete_run, of put ctx start]
    by (simp add: uninstall)
  have u: "undefined_physical_id x \<noteq> []" for x by (simp add: undefined_physical_id_def)
  have c1: "RequestType ev = Some ''Delete'' \<and> PhysicalResourceId ev = Some p \<and> p \<noteq> [] \<longrightarrow>
       helm_chart_handler os put ev ctx =
         (None,
          \<lparr>calls = [uninstall],
             sent = [Put url
                      (responseBody CFN_SUCCESS (see_details ctx) p sid rid lid False (JObj []))
                      (put url
                        (responseBody CFN_SUCCESS (see_details ctx) p sid rid lid False
                           (JObj [])))]\<rparr>)"
    using d by (auto simp: helm_chart_handler_def helm_chart_cfn_send_envelope[OF env]
          truthy_def str_or_def start_def)
  have c2: "RequestType ev = Some ''Delete'' \<and> \<not> truthy (PhysicalResourceId ev) \<longrightarrow>
       helm_chart_handler os put ev ctx =
         (None,
          \<lparr>calls = [uninstall],
             sent = [Put url
                      (responseBody CFN_FAILED (undefined_physical_id ''Delete'')
                         (log_stream_name ctx) sid rid lid False (JObj []))
                      (put url
                        (responseBody CFN_FAILED (undefined_physical_id ''Delete'')
                           (log_stream_name ctx) sid rid lid False (JObj [])))]\<rparr>)"
    using d u by (auto simp: helm_chart_handler_def helm_chart_cfn_error_def
          helm_chart_cfn_send_envelope[OF env] str_or_def start_def)
  have c3: "RequestType ev = Some ''Update'' \<and> \<not> truthy (PhysicalResourceId ev)
        \<and> helm_chart_values os ''Update'' (Values props) = Inr vf
        \<and> check_output os [] upgrade = Output out \<longrightarrow>
       helm_chart_handler os put ev ctx =
         (None,
          \<lparr>calls = [upgrade],
             sent = [Put url
                      (responseBody CFN_FAILED (undefined_physical_id ''Update'')
                         (log_stream_name ctx) sid rid lid False (JObj []))
                      (put url
                        (responseBody CFN_FAILED (undefined_physical_id ''Update'')
                           (log_stream_name ctx) sid rid lid False (JObj [])))]\<rparr>)"
    using props release chart cluster kube u
    by (auto simp: helm_chart_handler_def helm_chart_handler_body_def helm_chart_run_def
          helm_chart_helm_def invoke_def helm_chart_cfn_error_def
          helm_chart_cfn_send_envelope[OF env] str_or_def start_def upgrade)
  have c4: "take 15 (undefined_physical_id rt) = ''invalid request''"
    by (simp add: undefined_physical_id_def)
  show ?thesis using c1 c2 c3 c4 by blast
qed

text \<open>The theorem at a delete on a machine where \<open>helm\<close> is not installed.\<close>

theorem uninstall_errors_swallowed_witness:
  "helm_chart_handler
     \<lparr>CLUSTER_NAME = Some ''prod'', outdir = ''/tmp'', check_call = (\<lambda>c. None),
        write_values = (\<lambda>f t. None),
        check_output = (\<lambda>h c. Raised (Exception ''[Errno 2] No such file or directory: helm'')),
        uuid4 = ''1234''\<rparr>
     (\<lambda>u b. None)
     (chart_event ''Delete'' ''req5'' (Some ''prod/1234'')
        \<lparr>Release = Some ''web'', Chart = Some ''nginx'', Version = None, Namespace = None,
           Repository = None, Values = None\<rparr>)
     \<lparr>log_stream_name = ''log''\<rparr>
   = (None,
      \<lparr>calls = [[''helm'', ''uninstall'', ''web'', ''--kubeconfig'', ''/tmp/kubeconfig'']],
         sent = [Put ''https://cloudformation.example/response''
                  (responseBody ''SUCCESS'' ''See the details in CloudWatch Log Stream: log''
                     ''prod/1234'' ''arn:aws:cloudformation:stack/s'' ''req5'' ''Chart'' False
                     (JObj []))
                  None]\<rparr>)"
proof -
  let ?os = "\<lparr>CLUSTER_NAME = Some ''prod'', outdir = ''/tmp'', check_call = (\<lambda>c. None),
        write_values = (\<lambda>f t. None),
        check_output = (\<lambda>h c. Raised (Exception ''[Errno 2] No such file or directory: helm'')),
        uuid4 = ''1234''\<rparr>"
  let ?props = "\<lparr>Release = Some ''web'', Chart = Some ''nginx'', Version = None, Namespace = None,
           Repository = None, Values = None\<rparr>"
  let ?ev = "chart_event ''Delete'' ''req5'' (Some ''prod/1234'') ?props"
  have env: "envelope ?ev ''https://cloudformation.example/response''
               ''arn:aws:cloudformation:stack/s'' ''req5'' ''Chart''"
    by (simp add: envelope_def chart_event_def)
  have props: "ResourceProperties ?ev = Some ?props" by (simp add: chart_event_def)
  have release: "Release ?props = Some ''web''" by simp
  have chart: "Chart ?props = Some ''nginx''" by simp
  have cluster: "CLUSTER_NAME ?os = Some ''prod''" by simp
  have kube: "check_call ?os [''aws'', ''eks'', ''update-kubeconfig'', ''--name'', ''prod'',
                              ''--kubeconfig'', kubeconfig ?os] = None"
    by simp
  have c: "helm_chart_cmnd ?os ''uninstall'' ''web'' None None None (Namespace ?props) None
           = [''helm'', ''uninstall'', ''web'', ''--kubeconfig'', ''/tmp/kubeconfig'']"
    by (simp add: helm_chart_cmnd_def opt_args_def kubeconfig_def path_join_def)
  have h: "RequestType ?ev = Some ''Delete'' \<and> PhysicalResourceId ?ev = Some ''prod/1234''
           \<and> ''prod/1234'' \<noteq> []"
    by (simp add: chart_event_def)
  show ?thesis
    using h uninstall_errors_swallowed[OF env props release chart cluster kube c[symmetric] refl,
        of "''prod/1234''" "\<lambda>u b. None" "\<lparr>log_stream_name = ''log''\<rparr>"]
    by (simp add: CFN_SUCCESS_def see_details_def)
qed

text \<open>
  Claim C3, as the code has it. In the helm chart handler, a delete whose uninstall fails,
  as it does for a release that is not there, is answered with \<open>SUCCESS\<close> and the
  physical id of the request. The cluster handler has nothing of the kind: when
  \<open>delete_cluster\<close> raises, as it does for a cluster that is not there, the delete is
  answered with \<open>FAILED\<close>, the text of the exception and the physical id of the request;
  it is answered with \<open>SUCCESS\<close> when the cluster has been deleted and is gone.
\<close>

theorem delete_of_absent_resource:
  assumes env: "envelope ev url sid rid lid" and henv: "envelope hev hurl hsid hrid hlid"
  shows "(RequestType hev = Some ''Delete'' \<and> ResourceProperties hev = Some props
        \<and> Release props = Some release \<and> Chart props = Some chart
        \<and> CLUSTER_NAME os = Some cluster_name
        \<and> check_call os [''aws'', ''eks'', ''update-kubeconfig'', ''--name'', cluster_name,
                         ''--kubeconfig'', kubeconfig os] = None
        \<and> PhysicalResourceId hev = Some p \<and> p \<noteq> []
        \<and> check_output os []
             (helm_chart_cmnd os ''uninstall'' release None None None (Namespace props) None)
           = CalledProcessError out \<longrightarrow>
       helm_chart_handler os put hev ctx =
         (None,
          \<lparr>calls = [helm_chart_cmnd os ''uninstall'' release None None None (Namespace props) None],
             sent = [Put hurl
                      (responseBody CFN_SUCCESS (see_details ctx) p hsid hrid hlid False (JObj []))
                      (put hurl
                        (responseBody CFN_SUCCESS (see_details ctx) p hsid hrid hlid False
                           (JObj [])))]\<rparr>))
    \<and> (RequestType ev = Some ''Delete''
        \<and> Option.bind (ResourceProperties ev) Config = Some cfg
        \<and> determine_cluster_name cfg (PhysicalResourceId ev) ''Delete'' rid = Inr cn
        \<and> eks [] Create_client = Inr client
        \<and> eks [Create_client] (Delete_cluster cn) = Inl e \<longrightarrow>
       handler eks put ev ctx =
         (None,
          \<lparr>calls = [Create_client, Delete_cluster cn],
             sent = [Put url
                      (responseBody CFN_FAILED
                         (if str_exn e = [] then see_details ctx else str_exn e)
                         (event_physical_id ev ctx) sid rid lid False (JObj []))
                      (put url
                        (responseBody CFN_FAILED
                           (if str_exn e = [] then see_details ctx else str_exn e)
                           (event_physical_id ev ctx) sid rid lid False (JObj [])))]\<rparr>))
    \<and> (RequestType ev = Some ''Delete''
        \<and> Option.bind (ResourceProperties ev) Config = Some cfg
        \<and> determine_cluster_name cfg (PhysicalResourceId ev) ''Delete'' rid = Inr cn
        \<and> cn \<noteq> []
        \<and> answers eks [] [Create_client, Delete_cluster cn, Wait_cluster_deleted cn]
             [client, deleted, waited] \<longrightarrow>
       handler eks put ev ctx =
         (None,
          \<lparr>calls = [Create_client, Delete_cluster cn, Wait_cluster_deleted cn],
             sent = [Put url
                      (responseBody CFN_SUCCESS (see_details ctx) cn sid rid lid False (JObj []))
                      (put url
                        (responseBody CFN_SUCCESS (see_details ctx) cn sid rid lid False
                           (JObj [])))]\<rparr>))"
proof (intro conjI impI)
  assume a: "RequestType hev = Some ''Delete'' \<and> ResourceProperties hev = Some props
        \<and> Release props = Some release \<and> Chart props = Some chart
        \<and> CLUSTER_NAME os = Some cluster_name
        \<and> check_call os [''aws'', ''eks'', ''update-kubeconfig'', ''--name'', cluster_name,
                         ''--kubeconfig'', kubeconfig os] = None
        \<and> PhysicalResourceId hev = Some p \<and> p \<noteq> []
        \<and> check_output os []
             (helm_chart_cmnd os ''uninstall'' release None None None (Namespace props) None)
           = CalledProcessError out"
  then show "helm_chart_handler os put hev ctx =
         (None,
          \<lparr>calls = [helm_chart_cmnd os ''uninstall'' release None None None (Namespace props) None],
             sent = [Put hurl
                      (responseBody CFN_SUCCESS (see_details ctx) p hsid hrid hlid False (JObj []))
                      (put hurl
                        (responseBody CFN_SUCCESS (see_details ctx) p hsid hrid hlid False
                           (JObj [])))]\<rparr>)"
    by (simp add: helm_chart_handler_def helm_chart_handler_body_def helm_chart_values_delete
          helm_chart_delete_run helm_chart_cfn_send_envelope[OF henv] truthy_def str_or_def
          start_def Let_def)
next
  assume a: "RequestType ev = Some ''Delete''
        \<and> Option.bind (ResourceProperties ev) Config = Some cfg
        \<and> determine_cluster_name cfg (PhysicalResourceId ev) ''Delete'' rid = Inr cn
        \<and> eks [] Create_client = Inr client
        \<and> eks [Create_client] (Delete_cluster cn) = Inl e"
  then have rt: "RequestType ev = Some ''Delete''"
    and cfg: "Option.bind (ResourceProperties ev) Config = Some cfg" by simp_all
  show "handler eks put ev ctx =
         (None,
          \<lparr>calls = [Create_client, Delete_cluster cn],
             sent = [Put url
                      (responseBody CFN_FAILED
                         (if str_exn e = [] then see_details ctx else str_exn e)
                         (event_physical_id ev ctx) sid rid lid False (JObj []))
                      (put url
                        (responseBody CFN_FAILED
                           (if str_exn e = [] then see_details ctx else str_exn e)
                           (event_physical_id ev ctx) sid rid lid False (JObj [])))]\<rparr>)"
    using a
    by (simp add: handler_def handler_body_reads[OF env rt cfg] reconcile_def
          delete_and_report_def invoke_def start_def cfn_error_def cfn_send_envelope[OF env]
          str_or_def)
next
  assume a: "RequestType ev = Some ''Delete''
        \<and> Option.bind (ResourceProperties ev) Config = Some cfg
        \<and> determine_cluster_name cfg (PhysicalResourceId ev) ''Delete'' rid = Inr cn
        \<and> cn \<noteq> []
        \<and> answers eks [] [Create_client, Delete_cluster cn, Wait_cluster_deleted cn]
             [client, deleted, waited]"
  then have rt: "RequestType ev = Some ''Delete''"
    and cfg: "Option.bind (ResourceProperties ev) Config = Some cfg" by simp_all
  show "handler eks put ev ctx =
         (None,
          \<lparr>calls = [Create_client, Delete_cluster cn, Wait_cluster_deleted cn],
             sent = [Put url
                      (responseBody CFN_SUCCESS (see_details ctx) cn sid rid lid False (JObj []))
                      (put url
                        (responseBody CFN_SUCCESS (see_details ctx) cn sid rid lid False
                           (JObj [])))]\<rparr>)"
    using a
    by (simp add: handler_def handler_body_reads[OF env rt cfg] reconcile_def
          delete_and_report_def invoke_def start_def cfn_send_envelope[OF env] str_or_def)
qed

text \<open>The theorem at a release and at a cluster that are not there.\<close>

theorem delete_of_absent_resource_witness:
  "helm_chart_handler
     \<lparr>CLUSTER_NAME = Some ''prod'', outdir = ''/tmp'', check_call = (\<lambda>c. None),
        write_values = (\<lambda>f t. None),
        check_output = (\<lambda>h c. CalledProcessError ''Error: uninstall: Release not loaded: web: release: not found''),
        uuid4 = ''1234''\<rparr>
     (\<lambda>u b. None)
     (chart_event ''Delete'' ''req6'' (Some ''prod/1234'')
        \<lparr>Release = Some ''web'', Chart = Some ''nginx'', Version = None, Namespace = None,
           Repository = None, Values = None\<rparr>)
     \<lparr>log_stream_name = ''log''\<rparr>
   = (None,
      \<lparr>calls = [[''helm'', ''uninstall'', ''web'', ''--kubeconfig'', ''/tmp/kubeconfig'']],
         sent = [Put ''https://cloudformation.example/response''
                  (responseBody ''SUCCESS'' ''See the details in CloudWatch Log Stream: log''
                     ''prod/1234'' ''arn:aws:cloudformation:stack/s'' ''req6'' ''Chart'' False
                     (JObj []))
                  None]\<rparr>)
   \<and> handler
       (\<lambda>h c. if c = Create_client then Inr JNull
               else Inl (Exception ''No cluster found for name: prod.''))
       (\<lambda>u b. None)
       (cluster_event ''Delete'' ''req6'' (Some ''prod'') empty_config None)
       \<lparr>log_stream_name = ''log''\<rparr>
     = (None,
        \<lparr>calls = [Create_client, Delete_cluster ''prod''],
           sent = [Put ''https://cloudformation.example/response''
                    (responseBody ''FAILED'' ''No cluster found for name: prod.'' ''prod''
                       ''arn:aws:cloudformation:stack/s'' ''req6'' ''Cluster'' False (JObj []))
                    None]\<rparr>)"
proof -
  let ?os = "\<lparr>CLUSTER_NAME = Some ''prod'', outdir = ''/tmp'', check_call = (\<lambda>c. None),
        write_values = (\<lambda>f t. None),
        check_output = (\<lambda>h c. CalledProcessError ''Error: uninstall: Release not loaded: web: release: not found''),
        uuid4 = ''1234''\<rparr>"
  let ?props = "\<lparr>Release = Some ''web'', Chart = Some ''nginx'', Version = None, Namespace = None,
           Repository = None, Values = None\<rparr>"
  let ?hev = "chart_event ''Delete'' ''req6'' (Some ''prod/1234'') ?props"
  let ?ev = "cluster_event ''Delete'' ''req6'' (Some ''prod'') empty_config None"
  let ?eks = "\<lambda>(h :: eks_call list) c. if c = Create_client then (Inr JNull :: exn + json)
               else Inl (Exception ''No cluster found for name: prod.'')"
  have env: "envelope ?ev ''https://cloudformation.example/response''
               ''arn:aws:cloudformation:stack/s'' ''req6'' ''Cluster''"
    by (simp add: envelope_def cluster_event_def)
  have henv: "envelope ?hev ''https://cloudformation.example/response''
               ''arn:aws:cloudformation:stack/s'' ''req6'' ''Chart''"
    by (simp add: envelope_def chart_event_def)
  have c: "helm_chart_cmnd ?os ''uninstall'' ''web'' None None None (Namespace ?props) None
           = [''helm'', ''uninstall'', ''web'', ''--kubeconfig'', ''/tmp/kubeconfig'']"
    by (simp add: helm_chart_cmnd_def opt_args_def kubeconfig_def path_join_def)
  have h1: "RequestType ?hev = Some ''Delete'' \<and> ResourceProperties ?hev = Some ?props
        \<and> Release ?props = Some ''web'' \<and> Chart ?props = Some ''nginx''
        \<and> CLUSTER_NAME ?os = Some ''prod''
        \<and> check_call ?os [''aws'', ''eks'', ''update-kubeconfig'', ''--name'', ''prod'',
                         ''--kubeconfig'', kubeconfig ?os] = None
        \<and> PhysicalResourceId ?hev = Some ''prod/1234'' \<and> ''prod/1234'' \<noteq> []
        \<and> check_output ?os []
             (helm_chart_cmnd ?os ''uninstall'' ''web'' None None None (Namespace ?props) None)
           = CalledProcessError ''Error: uninstall: Release not loaded: web: release: not found''"
    by (simp add: chart_event_def)
  have h2: "RequestType ?ev = Some ''Delete''
        \<and> Option.bind (ResourceProperties ?ev) Config = Some empty_config
        \<and> determine_cluster_name empty_config (PhysicalResourceId ?ev) ''Delete'' ''req6''
          = Inr ''prod''
        \<and> ?eks [] Create_client = Inr JNull
        \<and> ?eks [Create_client] (Delete_cluster ''prod'')
          = Inl (Exception ''No cluster found for name: prod.'')"
    by (simp add: cluster_event_def determine_cluster_name_def empty_config_def truthy_def
          str_or_def)
  have p: "event_physical_id ?ev \<lparr>log_stream_name = ''log''\<rparr> = ''prod''"
    by (simp add: event_physical_id_def cluster_event_def)
  show ?thesis
    using h1 h2 p c
      delete_of_absent_resource[OF env henv,
        of ?props "''web''" "''nginx''" ?os "''prod''" "''prod/1234''"
           "''Error: uninstall: Release not loaded: web: release: not found''"
           "\<lambda>u b. None" "\<lparr>log_stream_name = ''log''\<rparr>" empty_config "''prod''" ?eks JNull
           "Exception ''No cluster found for name: prod.''"]
    by (simp add: CFN_SUCCESS_def CFN_FAILED_def see_details_def)
qed

text \<open>
  Claim C3 as the specification states it fails for the cluster handler: the cluster
  \<open>prod\<close> below is already absent, \<open>delete_cluster\<close> raises
  \<open>ResourceNotFoundException\<close>, and the response is \<open>FAILED\<close>.
\<close>

theorem cluster_delete_not_found_counterexample:
  "handler
     (\<lambda>h c. if c = Create_client then Inr JNull
             else Inl (Exception ''An error occurred (ResourceNotFoundException) when calling the DeleteCluster operation: No cluster found for name: prod.''))
     (\<lambda>u b. None)
     (cluster_event ''Delete'' ''req8'' (Some ''prod'')
        \<lparr>name = Some ''prod'', resourcesVpcConfig = None, roleArn = Some ''role'',
           version = None, other = []\<rparr> None)
     \<lparr>log_stream_name = ''log''\<rparr>
   = (None,
      \<lparr>calls = [Create_client, Delete_cluster ''prod''],
         sent = [Put ''https://cloudformation.example/response''
                  (responseBody ''FAILED''
                     ''An error occurred (ResourceNotFoundException) when calling the DeleteCluster operation: No cluster found for name: prod.''
                     ''prod'' ''arn:aws:cloudformation:stack/s'' ''req8'' ''Cluster'' False
                     (JObj []))
                  None]\<rparr>)"
  by (simp add: run_cluster_handler CFN_FAILED_def)

text \<open>
  Claim C8 holds for \<open>cfn_send\<close> of the cluster handler (lemma \<open>cfn_send_envelope\<close>:
  the physical id falls back to the one of the event) and fails for the copy in the helm
  chart handler. Below, an update of the release with the physical id \<open>prod/1234\<close> fails
  in \<open>helm upgrade\<close>; the \<open>FAILED\<close> response reports the log stream name as the
  physical id. The same failure in the cluster handler reports the physical id of the
  request.
\<close>

theorem helm_chart_failure_physical_id:
  "helm_chart_handler
     \<lparr>CLUSTER_NAME = Some ''prod'', outdir = ''/tmp'', check_call = (\<lambda>c. None),
        write_values = (\<lambda>f t. None),
        check_output = (\<lambda>h c. CalledProcessError ''Error: UPGRADE FAILED''),
        uuid4 = ''5678''\<rparr>
     (\<lambda>u b. None)
     (chart_event ''Update'' ''req10'' (Some ''prod/1234'')
        \<lparr>Release = Some ''web'', Chart = Some ''nginx'', Version = None, Namespace = None,
           Repository = None, Values = None\<rparr>)
     \<lparr>log_stream_name = ''2026/11/04/[$LATEST]abcdef''\<rparr>
   = (None,
      \<lparr>calls = [[''helm'', ''upgrade'', ''web'', ''nginx'', ''--install'', ''--kubeconfig'',
                  ''/tmp/kubeconfig'']],
         sent = [Put ''https://cloudformation.example/response''
                  (responseBody ''FAILED'' (repr_bytes ''Error: UPGRADE FAILED'')
                     ''2026/11/04/[$LATEST]abcdef'' ''arn:aws:cloudformation:stack/s'' ''req10''
                     ''Chart'' False (JObj []))
                  None]\<rparr>)
   \<and> PhysicalResourceId
       (chart_event ''Update'' ''req10'' (Some ''prod/1234'')
          \<lparr>Release = Some ''web'', Chart = Some ''nginx'', Version = None, Namespace = None,
             Repository = None, Values = None\<rparr>)
     = Some ''prod/1234''
   \<and> sent (snd (handler (\<lambda>h c. Inl (Exception ''AccessDenied'')) (\<lambda>u b. None)
       (cluster_event ''Update'' ''req10'' (Some ''prod'') empty_config None)
       \<lparr>log_stream_name = ''2026/11/04/[$LATEST]abcdef''\<rparr>))
     = [Put ''https://cloudformation.example/response''
          (responseBody ''FAILED'' ''AccessDenied'' ''prod'' ''arn:aws:cloudformation:stack/s''
             ''req10'' ''Cluster'' False (JObj []))
          None]"
proof -
  have r: "repr_bytes ''Error: UPGRADE FAILED'' \<noteq> []" by (simp add: repr_bytes_def Let_def)
  show ?thesis
    using r by (simp add: run_helm_chart_handler run_cluster_handler CFN_FAILED_def)
qed

end
